theory Spec2Isabelle
  imports
    Main
    "HOL-Library.Word"
    "HOL-Library.Sublist"
    "HOL-Library.AList"
    "HOL-Library.List_Lexorder"
    "HOL-Library.Char_ord"
begin

section \<open>Conventions of the embedding\<close>

text \<open>
  The development embeds the reconciliation and download/cache/checksum code of host-db.

  \<^item> A JavaScript string is a \<^typ>\<open>string\<close>; a character stands for one code unit
    (the model covers the code units below 256).
  \<^item> A plain object used as a dictionary (\<^verbatim>\<open>Record<string, T>\<close>) is the list of its own
    entries in the order \<^verbatim>\<open>Object.entries\<close> yields them. \<^verbatim>\<open>obj[k]\<close> reads the own
    property \<^verbatim>\<open>k\<close> and, where there is none, the member of \<^verbatim>\<open>Object.prototype\<close> of that
    name; \<^verbatim>\<open>obj[k] = v\<close> creates or overwrites the own property, except for the key
    \<^verbatim>\<open>__proto__\<close>.
  \<^item> A \<^verbatim>\<open>Map<string, string>\<close> is the list of its entries in insertion order;
    \<^verbatim>\<open>set\<close> is \<^const>\<open>AList.update\<close>, which overwrites in place or appends.
  \<^item> A thrown \<^verbatim>\<open>Error\<close> is a value of the type \<open>error\<close>; a function that can throw
    returns \<open>error + 'a\<close>.
  \<^item> The file system is a map from paths to contents; \<^verbatim>\<open>mkdir\<close> and writes succeed,
    \<^verbatim>\<open>unlink\<close> removes the file if there is one, the network can fail.
\<close>

section \<open>Errors\<close>

text \<open>
  The errors the code throws, by kind, with the values their messages carry:
  the unsupported platform and architecture; the URL, status and status text of a failed
  download; the URL of a response without body; the error of a failed transfer, passed on
  as it is; the URL, expected digest and computed digest of a checksum mismatch; the URL
  and status of a failed fetch in checksum repair; the error of \<^verbatim>\<open>JSON.parse\<close>; the error
  of reading a file that does not exist; the error of reading a property of \<^verbatim>\<open>undefined\<close>
  or taking its keys.
\<close>

datatype error =
    UnsupportedPlatform string string
  | DownloadFailed string nat string
  | NoResponseBody string
  | TransportError string
  | ChecksumMismatch string string string
  | FetchFailed string nat
  | SyntaxError
  | NoSuchFile
  | TypeError

section \<open>Small string functions of the JavaScript library\<close>

text \<open>\<^verbatim>\<open>String(n)\<close> for a non-negative integer, as a template literal prints it.\<close>

fun decimal :: "nat \<Rightarrow> string" where
  "decimal n =
     (if n < 10 then [''0123456789'' ! n]
      else decimal (n div 10) @ [''0123456789'' ! (n mod 10)])"

declare decimal.simps [simp del]

text \<open>\<^verbatim>\<open>s.endsWith(t)\<close> and \<^verbatim>\<open>s.includes(t)\<close>.\<close>

definition endsWith :: "string \<Rightarrow> string \<Rightarrow> bool" where
  "endsWith s t = suffix t s"

definition str_includes :: "string \<Rightarrow> string \<Rightarrow> bool" where
  "str_includes s t = sublist t s"

text \<open>\<^verbatim>\<open>s.split(c)\<close> for a separator of one character: never the empty list.\<close>

fun split_on :: "char \<Rightarrow> string \<Rightarrow> string list" where
  "split_on c [] = [[]]"
| "split_on c (x # xs) =
     (if x = c then [] # split_on c xs
      else (case split_on c xs of
              w # ws \<Rightarrow> (x # w) # ws
            | [] \<Rightarrow> [[x]]))"

text \<open>\<^verbatim>\<open>lines.join(sep)\<close>.\<close>

fun join_with :: "string \<Rightarrow> string list \<Rightarrow> string" where
  "join_with sep [] = []"
| "join_with sep [l] = l"
| "join_with sep (l # m # ls) = l @ sep @ join_with sep (m # ls)"

text \<open>The truthiness of an optional string: \<^verbatim>\<open>undefined\<close> and \<^verbatim>\<open>''\<close> are falsy.\<close>

definition truthy :: "string option \<Rightarrow> bool" where
  "truthy s = (case s of None \<Rightarrow> False | Some v \<Rightarrow> v \<noteq> [])"

section \<open>Platform detection (core, platform.ts)\<close>

text \<open>
  \<^verbatim>\<open>detectPlatform\<close> reads \<^verbatim>\<open>process.platform\<close> and \<^verbatim>\<open>process.arch\<close>; here they are
  the two arguments. The \<^verbatim>\<open>throw\<close> is the \<open>Inl\<close> result.
\<close>

definition detectPlatform :: "string \<Rightarrow> string \<Rightarrow> error + string" where
  "detectPlatform platform arch =
     (if platform = ''linux'' \<and> arch = ''x64'' then Inr ''linux-x64''
      else if platform = ''linux'' \<and> arch = ''arm64'' then Inr ''linux-arm64''
      else if platform = ''darwin'' \<and> arch = ''arm64'' then Inr ''darwin-arm64''
      else if platform = ''win32'' \<and> arch = ''x64'' then Inr ''win32-x64''
      else Inl (UnsupportedPlatform platform arch))"

definition SUPPORTED_PLATFORMS :: "string list" where
  "SUPPORTED_PLATFORMS = [''linux-x64'', ''linux-arm64'', ''darwin-arm64'', ''win32-x64'']"

section \<open>Asset classification (repair-checksums)\<close>

definition PLATFORMS :: "string list" where
  "PLATFORMS =
     [''linux-x64'', ''linux-arm64'', ''darwin-x64'', ''darwin-arm64'', ''win32-x64'']"

text \<open>The first platform identifier, in the order of \<^const>\<open>PLATFORMS\<close>, that the filename contains.\<close>

definition extractPlatform :: "string \<Rightarrow> string option" where
  "extractPlatform filename = find (\<lambda>platform. str_includes filename platform) PLATFORMS"

section \<open>State snapshots (prep.ts)\<close>

record DatabaseEntry =
  displayName :: string
  status :: string
  versions :: "(string \<times> bool) list"
  platforms :: "(string \<times> bool) list"

record PlatformRelease =
  release_url :: string
  release_sha256 :: string
  release_size :: nat

record ReleaseVersion =
  releaseTag :: string
  releasedAt :: string
  released_platforms :: "(string \<times> PlatformRelease) list"

type_synonym DatabasesJson = "(string \<times> DatabaseEntry) list"
type_synonym ReleasesJson = "(string \<times> (string \<times> ReleaseVersion) list) list"

datatype discrepancy_type =
    missing_release | orphaned_release
  | missing_version | orphaned_version
  | missing_platform | orphaned_platform

record Discrepancy =
  type :: discrepancy_type
  database :: string
  version :: "string option"
  platform :: "string option"
  message :: string

definition quoted :: "string \<Rightarrow> string" where
  "quoted s = [CHR 0x27] @ s @ [CHR 0x27]"

definition missing_release_of :: "string \<Rightarrow> nat \<Rightarrow> Discrepancy" where
  "missing_release_of dbId n =
     \<lparr>type = missing_release, database = dbId, version = None, platform = None,
      message = ''Database '' @ quoted dbId @ '' has '' @ decimal n
                @ '' enabled version(s) but no releases''\<rparr>"

definition missing_version_of :: "string \<Rightarrow> string \<Rightarrow> Discrepancy" where
  "missing_version_of dbId v =
     \<lparr>type = missing_version, database = dbId, version = Some v, platform = None,
      message = ''Version '' @ quoted v @ '' is enabled but not released''\<rparr>"

definition missing_platform_of :: "string \<Rightarrow> string \<Rightarrow> string \<Rightarrow> Discrepancy" where
  "missing_platform_of dbId v p =
     \<lparr>type = missing_platform, database = dbId, version = Some v, platform = Some p,
      message = ''Platform '' @ quoted p @ '' is enabled but not released for ''
                @ dbId @ '' '' @ v\<rparr>"

definition orphaned_release_of :: "string \<Rightarrow> Discrepancy" where
  "orphaned_release_of dbId =
     \<lparr>type = orphaned_release, database = dbId, version = None, platform = None,
      message = ''Database '' @ quoted dbId
                @ '' is in releases.json but not in databases.json''\<rparr>"

definition orphaned_version_of :: "string \<Rightarrow> string \<Rightarrow> Discrepancy" where
  "orphaned_version_of dbId v =
     \<lparr>type = orphaned_version, database = dbId, version = Some v, platform = None,
      message = ''Version '' @ quoted v @ '' is released but not in databases.json''\<rparr>"

definition orphaned_platform_of :: "string \<Rightarrow> string \<Rightarrow> string \<Rightarrow> Discrepancy" where
  "orphaned_platform_of dbId v p =
     \<lparr>type = orphaned_platform, database = dbId, version = Some v, platform = Some p,
      message = ''Platform '' @ quoted p
                @ '' is released but not enabled in databases.json''\<rparr>"

subsection \<open>Reading a property of a snapshot\<close>

text \<open>
  The snapshots are objects made by \<^verbatim>\<open>JSON.parse\<close>; their prototype is
  \<^verbatim>\<open>Object.prototype\<close>. The own property names of \<^verbatim>\<open>Object.prototype\<close>:
\<close>

definition Object_prototype_members :: "string list" where
  "Object_prototype_members =
     [''constructor'', ''__defineGetter__'', ''__defineSetter__'', ''hasOwnProperty'',
      ''__lookupGetter__'', ''__lookupSetter__'', ''isPrototypeOf'',
      ''propertyIsEnumerable'', ''toString'', ''valueOf'', ''__proto__'',
      ''toLocaleString'']"

text \<open>
  \<^verbatim>\<open>obj[k]\<close> yields the value of the own property \<^verbatim>\<open>k\<close>; where there is none, the member
  of \<^verbatim>\<open>Object.prototype\<close> of that name, if there is one: a function, or for
  \<^verbatim>\<open>__proto__\<close> the prototype itself, in either case a truthy value that is no data of
  the snapshot; and \<^verbatim>\<open>undefined\<close> otherwise.
\<close>

datatype 'a property = Own 'a | Inherited string | Undefined

definition get_property :: "(string \<times> 'a) list \<Rightarrow> string \<Rightarrow> 'a property" where
  "get_property obj k =
     (case map_of obj k of
        Some v \<Rightarrow> Own v
      | None \<Rightarrow> if k \<in> set Object_prototype_members then Inherited k else Undefined)"

text \<open>
  What reading a property of such a member gives is a matter of the runtime and its
  version (the properties of the built-in functions). The detector reads one only to test
  it, so a runtime is taken as the answer to: does reading the property \<^verbatim>\<open>k\<close> of the
  member \<^verbatim>\<open>m\<close> give a falsy value (\<^verbatim>\<open>undefined\<close> when it has no such property)?
\<close>

type_synonym runtime = "string \<Rightarrow> string \<Rightarrow> bool"

text \<open>\<^verbatim>\<open>Object.entries(r).filter(([_, enabled]) => enabled).map(([k]) => k)\<close>\<close>

definition enabled_keys :: "(string \<times> bool) list \<Rightarrow> string list" where
  "enabled_keys r = map fst (filter (\<lambda>(_, enabled). enabled) r)"

text \<open>
  \<^verbatim>\<open>r[k]\<close> is truthy, for an object \<^verbatim>\<open>r\<close> of flags: the own flag is true, or there is
  no own flag and \<^verbatim>\<open>k\<close> names a member of \<^verbatim>\<open>Object.prototype\<close>.
\<close>

definition flag_set :: "(string \<times> bool) list \<Rightarrow> string \<Rightarrow> bool" where
  "flag_set r k =
     (case get_property r k of
        Own enabled \<Rightarrow> enabled
      | Inherited m \<Rightarrow> True
      | Undefined \<Rightarrow> False)"

definition is_active :: "DatabaseEntry \<Rightarrow> bool" where
  "is_active entry = (status entry = ''in-progress'' \<or> status entry = ''completed'')"

definition activeDatabases :: "DatabasesJson \<Rightarrow> string list" where
  "activeDatabases databases = map fst (filter (\<lambda>(_, entry). is_active entry) databases)"

subsection \<open>The loops of findDiscrepancies\<close>

text \<open>
  Each \<^verbatim>\<open>for\<close> loop is a recursive function over the remaining elements, threading the
  array \<^verbatim>\<open>discrepancies\<close>; \<^verbatim>\<open>push\<close> appends at the end and \<^verbatim>\<open>continue\<close> goes on with
  the rest. A loop that can throw returns the error or the array.
\<close>

fun missing_platforms_loop ::
  "string \<Rightarrow> string \<Rightarrow> string list \<Rightarrow> string list \<Rightarrow> Discrepancy list \<Rightarrow> Discrepancy list"
where
  "missing_platforms_loop dbId v releasedPlatforms [] ds = ds"
| "missing_platforms_loop dbId v releasedPlatforms (p # ps) ds =
     missing_platforms_loop dbId v releasedPlatforms ps
       (if p \<notin> set releasedPlatforms then ds @ [missing_platform_of dbId v p] else ds)"

text \<open>
  The loop over the enabled versions, \<^verbatim>\<open>released\<close> being what
  \<^verbatim>\<open>releases.databases[dbId]\<close> yields. When that is the object of the released versions,
  \<^verbatim>\<open>released[version]\<close> is a release, or \<^verbatim>\<open>undefined\<close>, or a member of
  \<^verbatim>\<open>Object.prototype\<close>, which has no property \<^verbatim>\<open>platforms\<close>, so that
  \<^verbatim>\<open>Object.keys(undefined)\<close> throws. When it is itself a member of
  \<^verbatim>\<open>Object.prototype\<close>, the read is the runtime's: a falsy value counts as a version that
  is not released; any other value has no property \<^verbatim>\<open>platforms\<close> either, and
  \<^verbatim>\<open>Object.keys\<close> throws.
\<close>

fun missing_versions_loop ::
  "runtime \<Rightarrow> string \<Rightarrow> (string \<times> ReleaseVersion) list property \<Rightarrow> string list
    \<Rightarrow> string list \<Rightarrow> Discrepancy list \<Rightarrow> error + Discrepancy list"
where
  "missing_versions_loop reads_falsy dbId released enabledPlatforms [] ds = Inr ds"
| "missing_versions_loop reads_falsy dbId released enabledPlatforms (v # vs) ds =
     (case released of
        Own obj \<Rightarrow>
          (case get_property obj v of
             Undefined \<Rightarrow>
               missing_versions_loop reads_falsy dbId released enabledPlatforms vs
                 (ds @ [missing_version_of dbId v])
           | Own release \<Rightarrow>
               missing_versions_loop reads_falsy dbId released enabledPlatforms vs
                 (missing_platforms_loop dbId v (map fst (released_platforms release))
                    enabledPlatforms ds)
           | Inherited m \<Rightarrow> Inl TypeError)
      | Inherited m \<Rightarrow>
          if reads_falsy m v
          then missing_versions_loop reads_falsy dbId released enabledPlatforms vs
                 (ds @ [missing_version_of dbId v])
          else Inl TypeError
      | Undefined \<Rightarrow> Inl TypeError)"

text \<open>
  The loop over the active databases. It looks each identifier up again in
  \<^verbatim>\<open>databases.databases\<close>; the identifiers are own keys of that object, so the lookup
  finds the entry (anything else has no \<^verbatim>\<open>versions\<close> to take the entries of).
  \<^verbatim>\<open>!releases.databases[dbId]\<close> holds when the read yields \<^verbatim>\<open>undefined\<close>.
\<close>

fun desired_loop ::
  "runtime \<Rightarrow> DatabasesJson \<Rightarrow> ReleasesJson \<Rightarrow> string list \<Rightarrow> Discrepancy list
    \<Rightarrow> error + Discrepancy list"
where
  "desired_loop reads_falsy databases releases [] ds = Inr ds"
| "desired_loop reads_falsy databases releases (dbId # rest) ds =
     (case get_property databases dbId of
        Own dbEntry \<Rightarrow>
          (let enabledVersions = enabled_keys (versions dbEntry);
               enabledPlatforms = enabled_keys (platforms dbEntry)
           in if get_property releases dbId = Undefined
              then desired_loop reads_falsy databases releases rest
                     (if length enabledVersions > 0
                      then ds @ [missing_release_of dbId (length enabledVersions)]
                      else ds)
              else (case missing_versions_loop reads_falsy dbId (get_property releases dbId)
                           enabledPlatforms enabledVersions ds of
                      Inl e \<Rightarrow> Inl e
                    | Inr ds' \<Rightarrow> desired_loop reads_falsy databases releases rest ds'))
      | Inherited m \<Rightarrow> Inl TypeError
      | Undefined \<Rightarrow> Inl TypeError)"

fun orphaned_platforms_loop ::
  "DatabaseEntry \<Rightarrow> string \<Rightarrow> string \<Rightarrow> string list \<Rightarrow> Discrepancy list \<Rightarrow> Discrepancy list"
where
  "orphaned_platforms_loop dbEntry dbId v [] ds = ds"
| "orphaned_platforms_loop dbEntry dbId v (p # ps) ds =
     orphaned_platforms_loop dbEntry dbId v ps
       (if \<not> flag_set (platforms dbEntry) p then ds @ [orphaned_platform_of dbId v p]
        else ds)"

fun orphaned_versions_loop ::
  "DatabaseEntry \<Rightarrow> string \<Rightarrow> (string \<times> ReleaseVersion) list \<Rightarrow> Discrepancy list
    \<Rightarrow> Discrepancy list"
where
  "orphaned_versions_loop dbEntry dbId [] ds = ds"
| "orphaned_versions_loop dbEntry dbId ((v, release) # rest) ds =
     (if \<not> flag_set (versions dbEntry) v
      then orphaned_versions_loop dbEntry dbId rest (ds @ [orphaned_version_of dbId v])
      else orphaned_versions_loop dbEntry dbId rest
             (orphaned_platforms_loop dbEntry dbId v
                (map fst (released_platforms release)) ds))"

text \<open>
  The loop over the released databases. When \<^verbatim>\<open>databases.databases[dbId]\<close> yields a
  member of \<^verbatim>\<open>Object.prototype\<close>, \<^verbatim>\<open>dbEntry\<close> is truthy and has no property
  \<^verbatim>\<open>versions\<close>: the first released version, if there is one, makes
  \<^verbatim>\<open>dbEntry.versions[version]\<close> throw.
\<close>

fun actual_loop ::
  "DatabasesJson \<Rightarrow> ReleasesJson \<Rightarrow> Discrepancy list \<Rightarrow> error + Discrepancy list"
where
  "actual_loop databases [] ds = Inr ds"
| "actual_loop databases ((dbId, released) # rest) ds =
     (case get_property databases dbId of
        Undefined \<Rightarrow> actual_loop databases rest (ds @ [orphaned_release_of dbId])
      | Own dbEntry \<Rightarrow>
          actual_loop databases rest (orphaned_versions_loop dbEntry dbId released ds)
      | Inherited m \<Rightarrow>
          if released = [] then actual_loop databases rest ds else Inl TypeError)"

text \<open>The body of \<^verbatim>\<open>findDiscrepancies\<close> once both files are parsed.\<close>

definition discrepancies_of ::
  "runtime \<Rightarrow> DatabasesJson \<Rightarrow> ReleasesJson \<Rightarrow> error + Discrepancy list"
where
  "discrepancies_of reads_falsy databases releases =
     (case desired_loop reads_falsy databases releases (activeDatabases databases) [] of
        Inl e \<Rightarrow> Inl e
      | Inr ds \<Rightarrow> actual_loop databases releases ds)"

text \<open>
  A state file: absent, present with text that \<^verbatim>\<open>JSON.parse\<close> rejects, or present with
  the JSON text of a value.
\<close>

datatype 'a json_file = Absent | Unparsable | Parses 'a

definition existsSync_json :: "'a json_file \<Rightarrow> bool" where
  "existsSync_json f = (f \<noteq> Absent)"

text \<open>\<^verbatim>\<open>JSON.parse(readFileSync(path, 'utf-8'))\<close>: reading a file that does not exist raises.\<close>

fun JSON_parse :: "'a json_file \<Rightarrow> error + 'a" where
  "JSON_parse (Parses v) = Inr v"
| "JSON_parse Unparsable = Inl SyntaxError"
| "JSON_parse Absent = Inl NoSuchFile"

definition findDiscrepancies ::
  "runtime \<Rightarrow> DatabasesJson json_file \<Rightarrow> ReleasesJson json_file
    \<Rightarrow> error + Discrepancy list"
where
  "findDiscrepancies reads_falsy databasesFile releasesFile =
     (if \<not> existsSync_json databasesFile \<or> \<not> existsSync_json releasesFile then Inr []
      else case JSON_parse databasesFile of
             Inl e \<Rightarrow> Inl e
           | Inr databases \<Rightarrow>
               (case JSON_parse releasesFile of
                  Inl e \<Rightarrow> Inl e
                | Inr releases \<Rightarrow> discrepancies_of reads_falsy databases releases))"

subsection \<open>The detector as the specification words it\<close>

text \<open>
  The two passes in the words of the specification, over snapshots read as mappings: a
  database is active when its status is in-progress or completed; a version or platform is
  enabled when the desired snapshot lists it with the flag true; a key is absent from a
  mapping when the mapping has no entry for it.
\<close>

definition spec_desired_database ::
  "ReleasesJson \<Rightarrow> string \<times> DatabaseEntry \<Rightarrow> Discrepancy list"
where
  "spec_desired_database actual = (\<lambda>(dbId, entry).
     (case map_of actual dbId of
        None \<Rightarrow>
          (if map fst (filter snd (versions entry)) \<noteq> []
           then [missing_release_of dbId (length (map fst (filter snd (versions entry))))]
           else [])
      | Some released \<Rightarrow>
          concat (map (\<lambda>v.
            (case map_of released v of
               None \<Rightarrow> [missing_version_of dbId v]
             | Some release \<Rightarrow>
                 map (missing_platform_of dbId v)
                   (filter (\<lambda>p. p \<notin> fst ` set (released_platforms release))
                      (map fst (filter snd (platforms entry))))))
            (map fst (filter snd (versions entry))))))"

definition spec_desired_pass :: "DatabasesJson \<Rightarrow> ReleasesJson \<Rightarrow> Discrepancy list" where
  "spec_desired_pass desired actual =
     concat (map (spec_desired_database actual)
       (filter (\<lambda>(dbId, entry). status entry \<in> {''in-progress'', ''completed''}) desired))"

definition spec_actual_database ::
  "DatabasesJson \<Rightarrow> string \<times> (string \<times> ReleaseVersion) list \<Rightarrow> Discrepancy list"
where
  "spec_actual_database desired = (\<lambda>(dbId, released).
     (case map_of desired dbId of
        None \<Rightarrow> [orphaned_release_of dbId]
      | Some entry \<Rightarrow>
          concat (map (\<lambda>(v, release).
            (if (v, True) \<notin> set (versions entry) then [orphaned_version_of dbId v]
             else map (orphaned_platform_of dbId v)
                    (filter (\<lambda>p. (p, True) \<notin> set (platforms entry))
                       (map fst (released_platforms release)))))
            released)))"

definition spec_actual_pass :: "DatabasesJson \<Rightarrow> ReleasesJson \<Rightarrow> Discrepancy list" where
  "spec_actual_pass desired actual = concat (map (spec_actual_database desired) actual)"

definition computeDiscrepancies :: "DatabasesJson \<Rightarrow> ReleasesJson \<Rightarrow> Discrepancy list" where
  "computeDiscrepancies desired actual =
     spec_desired_pass desired actual @ spec_actual_pass desired actual"

text \<open>
  Snapshots none of whose keys names a member of \<^verbatim>\<open>Object.prototype\<close>; the keys of an
  object are distinct.
\<close>

definition plain_keys :: "(string \<times> 'a) list \<Rightarrow> bool" where
  "plain_keys obj =
     (distinct (map fst obj) \<and> list_all (\<lambda>k. k \<notin> set Object_prototype_members) (map fst obj))"

definition plain_snapshots :: "DatabasesJson \<Rightarrow> ReleasesJson \<Rightarrow> bool" where
  "plain_snapshots desired actual =
     (plain_keys desired
      \<and> list_all (\<lambda>(dbId, entry). plain_keys (versions entry) \<and> plain_keys (platforms entry))
          desired
      \<and> plain_keys actual
      \<and> list_all (\<lambda>(dbId, released).
            plain_keys released
            \<and> list_all (\<lambda>(v, release). plain_keys (released_platforms release)) released)
          actual)"

subsection \<open>Example snapshots\<close>

text \<open>
  A stand-in for the runtime in the examples: no built-in value has a property whose name
  begins with a digit, so such a read gives \<^verbatim>\<open>undefined\<close>; every other read is taken to
  find something.
\<close>

definition example_runtime :: runtime where
  "example_runtime m k = (k \<noteq> [] \<and> hd k \<in> set ''0123456789'')"

definition scenarioA_desired :: DatabasesJson where
  "scenarioA_desired =
     [(''mysql'', \<lparr>displayName = ''MySQL'', status = ''in-progress'',
        versions = [(''8.4'', True)],
        platforms = [(''linux-x64'', True), (''win32-x64'', True)]\<rparr>)]"


definition scenarioB_desired :: DatabasesJson where
  "scenarioB_desired =
     [(''mysql'', \<lparr>displayName = ''MySQL'', status = ''in-progress'',
        versions = [(''8.4'', True)],
        platforms = [(''linux-x64'', True)]\<rparr>)]"

definition scenarioB_actual :: ReleasesJson where
  "scenarioB_actual =
     [(''mysql'',
       [(''8.4'', \<lparr>releaseTag = ''mysql-8.4'', releasedAt = ''2026-01-01'',
          released_platforms =
            [(''linux-x64'',
                \<lparr>release_url = ''u1'', release_sha256 = ''d1'', release_size = 1\<rparr>),
             (''darwin-arm64'',
                \<lparr>release_url = ''u2'', release_sha256 = ''d2'', release_size = 2\<rparr>)]\<rparr>)])]"


text \<open>
  A desired snapshot whose one active database has the identifier \<open>constructor\<close>, with a
  version that is enabled and one that is not, beside a database that is not started.
\<close>

definition constructor_desired :: DatabasesJson where
  "constructor_desired =
     [(''constructor'', \<lparr>displayName = ''Constructor'', status = ''in-progress'',
        versions = [(''8.4'', True), (''8.0'', False)],
        platforms = [(''linux-x64'', True)]\<rparr>),
      (''mysql'', \<lparr>displayName = ''MySQL'', status = ''not-started'',
        versions = [(''8.4'', True)],
        platforms = [(''linux-x64'', True)]\<rparr>)]"
section \<open>Checksum manifests (lib/checksums.ts, repair-checksums)\<close>

subsection \<open>Reading a manifest\<close>

text \<open>
  Both readers match every line against
  \<^verbatim>\<open>/^([a-f0-9]{64})\s+\*?(.+)$/\<close>.
  The character classes, over the code units of the model: \<^verbatim>\<open>[a-f0-9]\<close>, \<^verbatim>\<open>\s\<close>, and
  the line terminators that \<^verbatim>\<open>.\<close> does not match.
\<close>

definition is_hex_lower :: "char \<Rightarrow> bool" where
  "is_hex_lower c = (c \<in> set ''0123456789abcdef'')"

definition is_white_space :: "char \<Rightarrow> bool" where
  "is_white_space c =
     (c \<in> set [CHR 0x09, CHR 0x0A, CHR 0x0B, CHR 0x0C, CHR 0x0D, CHR 0x20, CHR 0xA0])"

definition is_line_terminator :: "char \<Rightarrow> bool" where
  "is_line_terminator c = (c \<in> set [CHR 0x0A, CHR 0x0D])"

text \<open>\<^verbatim>\<open>(.+)$\<close> matches the whole of the remaining text.\<close>

definition dot_plus :: "string \<Rightarrow> bool" where
  "dot_plus r = (r \<noteq> [] \<and> list_all (\<lambda>c. \<not> is_line_terminator c) r)"

text \<open>\<^verbatim>\<open>\*?(.+)$\<close>: the star is taken when that lets the rest match, else left to the name.\<close>

definition star_name :: "string \<Rightarrow> string option" where
  "star_name r =
     (case r of
        [] \<Rightarrow> None
      | c # r' \<Rightarrow>
          if c = CHR ''*'' \<and> dot_plus r' then Some r'
          else if dot_plus r then Some r
          else None)"

text \<open>
  \<^verbatim>\<open>\s+\<close> is greedy: it first takes the whole run of white space, then backtracks one
  character at a time, down to one.
\<close>

fun spaces_then_name :: "nat \<Rightarrow> string \<Rightarrow> string option" where
  "spaces_then_name 0 rest = None"
| "spaces_then_name (Suc k) rest =
     (case star_name (drop (Suc k) rest) of
        Some n \<Rightarrow> Some n
      | None \<Rightarrow> spaces_then_name k rest)"

text \<open>The result of \<^verbatim>\<open>line.match(...)\<close>: the groups \<^verbatim>\<open>(match[1], match[2])\<close>.\<close>

definition match_checksum_line :: "string \<Rightarrow> (string \<times> string) option" where
  "match_checksum_line line =
     (if 64 \<le> length line \<and> list_all is_hex_lower (take 64 line)
      then map_option (\<lambda>n. (take 64 line, n))
             (spaces_then_name (length (takeWhile is_white_space (drop 64 line)))
                (drop 64 line))
      else None)"

text \<open>
  \<^verbatim>\<open>parseChecksums\<close> of lib/checksums.ts builds a plain object, read here as the map of
  its own properties. The assignment \<^verbatim>\<open>checksums[key] = hash\<close> creates or overwrites the own
  property \<^verbatim>\<open>key\<close>, for every key but \<^verbatim>\<open>__proto__\<close>: that assignment reaches the setter
  inherited from \<^verbatim>\<open>Object.prototype\<close>, which ignores a string, and the object is left as
  it was.
\<close>

definition assign :: "(string \<rightharpoonup> string) \<Rightarrow> string \<Rightarrow> string \<Rightarrow> (string \<rightharpoonup> string)" where
  "assign obj key v = (if key = ''__proto__'' then obj else obj(key \<mapsto> v))"

definition parseChecksums :: "string \<Rightarrow> (string \<rightharpoonup> string)" where
  "parseChecksums content =
     fold (\<lambda>line checksums.
             case match_checksum_line line of
               Some (hash, filename) \<Rightarrow> assign checksums filename hash
             | None \<Rightarrow> checksums)
          (split_on (CHR 0x0A) content) Map.empty"

text \<open>The loop of \<^verbatim>\<open>fetchChecksums\<close> of repair-checksums builds a \<^verbatim>\<open>Map\<close>.\<close>

definition parse_manifest :: "string \<Rightarrow> (string \<times> string) list" where
  "parse_manifest content =
     fold (\<lambda>line checksums.
             case match_checksum_line line of
               Some (hash, filename) \<Rightarrow> AList.update filename hash checksums
             | None \<Rightarrow> checksums)
          (split_on (CHR 0x0A) content) []"

subsection \<open>Writing a manifest\<close>

text \<open>
  The text that \<^verbatim>\<open>uploadChecksums\<close> builds, writes to the temporary file and uploads.
  \<^verbatim>\<open>[...checksums.keys()].sort()\<close> orders the keys by code units.
\<close>

definition checksum_lines :: "(string \<times> string) list \<Rightarrow> string list" where
  "checksum_lines checksums =
     map (\<lambda>filename.
            (case map_of checksums filename of Some hash \<Rightarrow> hash | None \<Rightarrow> ''undefined'')
            @ ''  '' @ filename)
         (sort (map fst checksums))"

definition manifest_content :: "(string \<times> string) list \<Rightarrow> string" where
  "manifest_content checksums = join_with [CHR 0x0A] (checksum_lines checksums) @ [CHR 0x0A]"

subsection \<open>Digest mappings\<close>



definition digest_a :: string where
  "digest_a = replicate 64 (CHR ''a'')"

definition digest_b :: string where
  "digest_b = replicate 64 (CHR ''b'')"

section \<open>Downloading (core, download.ts)\<close>

type_synonym bytes = "8 word list"

type_synonym files = "string \<rightharpoonup> bytes"

datatype checksum_algorithm = Sha256 | Sha512 | Md5

fun algorithm_name :: "checksum_algorithm \<Rightarrow> string" where
  "algorithm_name Sha256 = ''sha256''"
| "algorithm_name Sha512 = ''sha512''"
| "algorithm_name Md5 = ''md5''"

text \<open>
  What \<^verbatim>\<open>fetch\<close> resolves to. A streamed body is the list of chunks that
  \<^verbatim>\<open>reader.read()\<close> yields, and how the stream ends: done, or rejecting with an error.
  \<^verbatim>\<open>fetch\<close> itself is a function from the URL to an error (it rejects) or a response.
\<close>

datatype stream_end = Done | Failed string

record 'b Response =
  ok :: bool
  http_status :: nat
  statusText :: string
  body :: "'b option"

type_synonym stream = "bytes list \<times> stream_end"

record DownloadOptions =
  url :: string
  destination :: string
  expectedChecksum :: "string option"
  checksumAlgorithm :: "checksum_algorithm option"

record DownloadResult =
  path :: string
  size_bytes :: nat
  checksum :: string

text \<open>
  The \<^verbatim>\<open>while\<close> loop over the chunks: the state is what the hash has been fed, what has
  been written to the file, and \<^verbatim>\<open>downloaded\<close>.
\<close>

fun read_chunks :: "bytes list \<Rightarrow> bytes \<times> bytes \<times> nat \<Rightarrow> bytes \<times> bytes \<times> nat" where
  "read_chunks [] st = st"
| "read_chunks (chunk # rest) (hashed, written, downloaded) =
     read_chunks rest (hashed @ chunk, written @ chunk, downloaded + length chunk)"

text \<open>
  \<^verbatim>\<open>expectedChecksum.includes(':') ? expectedChecksum.split(':')[1] : expectedChecksum\<close>,
  the value of \<^verbatim>\<open>expected\<close>, for the given \<^verbatim>\<open>expectedChecksum\<close>. A string that
  contains the separator splits into two parts at least, so the second part exists.
\<close>

definition expected_digest :: "string \<Rightarrow> string" where
  "expected_digest given =
     (if CHR '':'' \<in> set given then split_on (CHR '':'') given ! 1 else given)"

text \<open>
  \<^verbatim>\<open>downloadFile\<close>, given the hash function of the crypto library (algorithm and data to
  hexadecimal digest) and the network. It returns the result or the error thrown, and the
  files afterwards. The progress callback does not influence the result and is left out.

  \<^verbatim>\<open>createWriteStream\<close> returns at once and opens (creates) the file later, while the
  loop awaits the network; the chunks written before that are held by the stream.
  \<^verbatim>\<open>opened\<close> tells whether the open has completed when a failure of the transfer is
  caught. If it has, \<^verbatim>\<open>unlink\<close> removes the partly written file. If it has not,
  \<^verbatim>\<open>unlink\<close> removes what was at the destination before the call or fails for want of a
  file, an error that \<^verbatim>\<open>.catch(() => {})\<close> swallows; the open that is still pending
  then creates the file, and the destroyed stream closes it without writing the chunks it
  held. When the transfer completes, the \<^verbatim>\<open>finish\<close> event that the code awaits comes after
  the open and the writes, so the file holds all the chunks.
\<close>

definition downloadFile ::
  "(checksum_algorithm \<Rightarrow> bytes \<Rightarrow> string) \<Rightarrow> (string \<Rightarrow> error + stream Response)
    \<Rightarrow> bool \<Rightarrow> DownloadOptions \<Rightarrow> files \<Rightarrow> (error + DownloadResult) \<times> files"
where
  "downloadFile hex_digest fetch opened options fs =
     (let algorithm = (case checksumAlgorithm options of None \<Rightarrow> Sha256 | Some a \<Rightarrow> a)
      in case fetch (url options) of
           Inl e \<Rightarrow> (Inl e, fs)
         | Inr response \<Rightarrow>
             if \<not> ok response
             then (Inl (DownloadFailed (url options) (http_status response)
                          (statusText response)), fs)
             else
               (case body response of
                  None \<Rightarrow> (Inl (NoResponseBody (url options)), fs)
                | Some (chunks, ending) \<Rightarrow>
                    (let (hashed, written, downloaded) = read_chunks chunks ([], [], 0);
                         fs' = fs(destination options \<mapsto> written)
                     in case ending of
                          Failed e \<Rightarrow>
                            (Inl (TransportError e),
                             if opened then fs'(destination options := None)
                             else (fs(destination options := None))
                                    (destination options \<mapsto> []))
                        | Done \<Rightarrow>
                            (let actualChecksum = hex_digest algorithm hashed;
                                 result = \<lparr>path = destination options,
                                           size_bytes = downloaded,
                                           checksum = algorithm_name algorithm @ '':''
                                                        @ actualChecksum\<rparr>
                             in case expectedChecksum options of
                                  None \<Rightarrow> (Inr result, fs')
                                | Some given \<Rightarrow>
                                    if given \<noteq> []
                                       \<and> actualChecksum \<noteq> expected_digest given
                                    then (Inl (ChecksumMismatch (url options)
                                                 (expected_digest given)
                                                 actualChecksum),
                                          fs'(destination options := None))
                                    else (Inr result, fs')))))"

subsection \<open>Example inputs\<close>

text \<open>
  A stand-in for the hash function in the examples: under SHA-256 the data \<open>[1, 2, 3]\<close> has
  the digest \<open>aa\<dots>a\<close> and any other data \<open>bb\<dots>b\<close>; under the other algorithms every
  data has the digest \<open>cc\<dots>c\<close>.
\<close>

definition digest_c :: string where
  "digest_c = replicate 64 (CHR ''c'')"

definition example_digest :: "checksum_algorithm \<Rightarrow> bytes \<Rightarrow> string" where
  "example_digest algorithm data =
     (if algorithm = Sha256 then (if data = [1, 2, 3] then digest_a else digest_b)
      else digest_c)"

text \<open>A network that answers every URL with the given response.\<close>

definition example_fetch :: "'b Response \<Rightarrow> string \<Rightarrow> error + 'b Response" where
  "example_fetch response u = Inr response"

definition ok_response :: "'b \<Rightarrow> 'b Response" where
  "ok_response b = \<lparr>ok = True, http_status = 200, statusText = ''OK'', body = Some b\<rparr>"

definition example_expected :: string where
  "example_expected = ''sha256:'' @ digest_a"

definition example_options :: DownloadOptions where
  "example_options =
     \<lparr>url = ''https://example.org/db.tar.gz'', destination = ''/cache/db.tar.gz'',
      expectedChecksum = Some example_expected, checksumAlgorithm = None\<rparr>"

text \<open>Options whose expected checksum names SHA-512, with no algorithm option.\<close>

definition sha512_options :: "string \<Rightarrow> DownloadOptions" where
  "sha512_options hex =
     \<lparr>url = ''https://example.org/db.tar.gz'', destination = ''/cache/db.tar.gz'',
      expectedChecksum = Some (''sha512'' @ '':'' @ hex), checksumAlgorithm = None\<rparr>"

section \<open>Checksum repair (repair-checksums)\<close>

record GitHubAsset =
  name :: string
  browser_download_url :: string
  asset_size :: nat

record GitHubRelease =
  tag_name :: string
  published_at :: string
  assets :: "GitHubAsset list"

definition REPO :: string where
  "REPO = ''robertjbass/hostdb''"

text \<open>
  \<^verbatim>\<open>fetchChecksums\<close>: the existing manifest of a release, empty when the response is not
  ok. The body of the response is its text.
\<close>

definition fetchChecksums ::
  "(string \<Rightarrow> error + string Response) \<Rightarrow> string \<Rightarrow> error + (string \<times> string) list"
where
  "fetchChecksums fetch_text tag =
     (case fetch_text (''https://github.com/'' @ REPO @ ''/releases/download/'' @ tag
                        @ ''/checksums.txt'') of
        Inl e \<Rightarrow> Inl e
      | Inr response \<Rightarrow>
          if \<not> ok response then Inr []
          else Inr (parse_manifest (case body response of None \<Rightarrow> [] | Some content \<Rightarrow> content)))"

fun hash_chunks :: "bytes list \<Rightarrow> bytes \<times> nat \<Rightarrow> bytes \<times> nat" where
  "hash_chunks [] st = st"
| "hash_chunks (chunk # rest) (hashed, bytesRead) =
     hash_chunks rest (hashed @ chunk, bytesRead + length chunk)"

definition computeRemoteSha256 ::
  "(checksum_algorithm \<Rightarrow> bytes \<Rightarrow> string) \<Rightarrow> (string \<Rightarrow> error + stream Response)
    \<Rightarrow> string \<Rightarrow> error + string"
where
  "computeRemoteSha256 hex_digest fetch u =
     (case fetch u of
        Inl e \<Rightarrow> Inl e
      | Inr response \<Rightarrow>
          if \<not> ok response then Inl (FetchFailed u (http_status response))
          else
            (case body response of
               None \<Rightarrow> Inl (NoResponseBody u)
             | Some (chunks, ending) \<Rightarrow>
                 (let (hashed, bytesRead) = hash_chunks chunks ([], 0)
                  in case ending of
                       Failed e \<Rightarrow> Inl (TransportError e)
                     | Done \<Rightarrow> Inr (hex_digest Sha256 hashed))))"

text \<open>The assets of a release that are platform binaries, and those without a checksum.\<close>

definition binaryAssets :: "GitHubRelease \<Rightarrow> GitHubAsset list" where
  "binaryAssets release =
     filter (\<lambda>a. name a \<noteq> ''checksums.txt'' \<and> extractPlatform (name a) \<noteq> None)
       (assets release)"

definition missingAssets :: "(string \<times> string) list \<Rightarrow> GitHubRelease \<Rightarrow> GitHubAsset list" where
  "missingAssets existingChecksums release =
     filter (\<lambda>a. name a \<notin> fst ` set existingChecksums) (binaryAssets release)"

text \<open>
  The loop that computes the missing checksums: a failure for one asset is logged and the
  asset skipped.
\<close>

definition updatedChecksums ::
  "(checksum_algorithm \<Rightarrow> bytes \<Rightarrow> string) \<Rightarrow> (string \<Rightarrow> error + stream Response)
    \<Rightarrow> (string \<times> string) list \<Rightarrow> GitHubAsset list \<Rightarrow> (string \<times> string) list"
where
  "updatedChecksums hex_digest fetch existingChecksums missing =
     fold (\<lambda>asset updated.
             case computeRemoteSha256 hex_digest fetch (browser_download_url asset) of
               Inr digest \<Rightarrow> AList.update (name asset) digest updated
             | Inl e \<Rightarrow> updated)
          missing existingChecksums"

text \<open>
  What the body of the loop over the releases in \<^verbatim>\<open>main\<close> does for one release: nothing
  (no platform binaries, all checksums present, or a dry run), or the upload of a new
  \<^verbatim>\<open>checksums.txt\<close> with the given text.
\<close>

datatype repair_outcome =
    NoPlatformBinaries
  | AllChecksumsPresent
  | DryRun
  | Uploaded string

definition repair_release ::
  "(checksum_algorithm \<Rightarrow> bytes \<Rightarrow> string) \<Rightarrow> (string \<Rightarrow> error + stream Response)
    \<Rightarrow> (string \<Rightarrow> error + string Response) \<Rightarrow> bool \<Rightarrow> GitHubRelease
    \<Rightarrow> error + repair_outcome"
where
  "repair_release hex_digest fetch fetch_text dryRun release =
     (if length (binaryAssets release) = 0 then Inr NoPlatformBinaries
      else
        (case fetchChecksums fetch_text (tag_name release) of
           Inl e \<Rightarrow> Inl e
         | Inr existingChecksums \<Rightarrow>
             if length (missingAssets existingChecksums release) = 0
             then Inr AllChecksumsPresent
             else if dryRun then Inr DryRun
             else Inr (Uploaded (manifest_content
                    (updatedChecksums hex_digest fetch existingChecksums
                       (missingAssets existingChecksums release))))))"

subsection \<open>Example inputs\<close>

text \<open>
  Scenario C: a release with two platform binaries and \<^verbatim>\<open>checksums.txt\<close>, whose manifest
  lists only the linux-x64 binary.
\<close>

definition scenarioC_release :: GitHubRelease where
  "scenarioC_release =
     \<lparr>tag_name = ''server-1.0.0'', published_at = ''2026-01-01T00:00:00Z'',
      assets =
        [\<lparr>name = ''server-linux-x64.tar.gz'',
           browser_download_url = ''https://example.org/server-linux-x64.tar.gz'',
           asset_size = 3\<rparr>,
         \<lparr>name = ''server-win32-x64.zip'',
           browser_download_url = ''https://example.org/server-win32-x64.zip'',
           asset_size = 2\<rparr>,
         \<lparr>name = ''checksums.txt'',
           browser_download_url = ''https://example.org/checksums.txt'',
           asset_size = 91\<rparr>]\<rparr>"

definition scenarioC_manifest :: string where
  "scenarioC_manifest = digest_a @ ''  server-linux-x64.tar.gz'' @ [CHR 0x0A]"

text \<open>A network on which every fetch is rejected.\<close>

definition failing_fetch :: "string \<Rightarrow> error + 'b Response" where
  "failing_fetch u = Inl (TransportError ''ENOTFOUND'')"

text \<open>A release with one platform binary and no manifest.\<close>

definition single_release :: GitHubRelease where
  "single_release =
     \<lparr>tag_name = ''server-1.0.0'', published_at = ''2026-01-01T00:00:00Z'',
      assets =
        [\<lparr>name = ''server-linux-x64.tar.gz'',
           browser_download_url = ''https://example.org/server-linux-x64.tar.gz'',
           asset_size = 3\<rparr>]\<rparr>"

definition not_found :: "'b Response" where
  "not_found = \<lparr>ok = False, http_status = 404, statusText = ''Not Found'', body = None\<rparr>"

definition complete_manifest :: string where
  "complete_manifest =
     digest_a @ ''  server-linux-x64.tar.gz'' @ [CHR 0x0A]
     @ digest_b @ ''  server-win32-x64.zip'' @ [CHR 0x0A]"

section \<open>The archive cache (core, cache.ts)\<close>

subsection \<open>path.join\<close>

text \<open>
  \<^verbatim>\<open>join\<close> of the Node library, in its POSIX flavour: the non-empty arguments are joined
  with a slash and the result is normalized. Normalizing goes through the segments from
  the left: an empty segment or a dot is dropped; two dots remove the segment before them,
  or stay when there is none to remove and the path is relative.
\<close>

definition push_segment :: "bool \<Rightarrow> string list \<Rightarrow> string \<Rightarrow> string list" where
  "push_segment allowAboveRoot res seg =
     (if seg = [] \<or> seg = ''.'' then res
      else if seg = ''..'' then
        (if res \<noteq> [] \<and> last res \<noteq> ''..'' then butlast res
         else if allowAboveRoot then res @ [''..'']
         else res)
      else res @ [seg])"

definition normalize :: "string \<Rightarrow> string" where
  "normalize p =
     (if p = [] then ''.''
      else
        (let isAbsolute = (hd p = CHR ''/'');
             trailingSeparator = (last p = CHR ''/'');
             normalized = join_with ''/''
               (foldl (push_segment (\<not> isAbsolute)) [] (split_on (CHR ''/'') p))
         in if normalized = [] then
              (if isAbsolute then ''/'' else if trailingSeparator then ''./'' else ''.'')
            else (if isAbsolute then ''/'' else []) @ normalized
                 @ (if trailingSeparator then ''/'' else [])))"

definition join :: "string list \<Rightarrow> string" where
  "join args =
     (let joined = join_with ''/'' (filter (\<lambda>arg. arg \<noteq> []) args)
      in if joined = [] then ''.'' else normalize joined)"

subsection \<open>The cache directory and the archive path\<close>

text \<open>What the functions read of the process: the platform, the environment, the home directory.\<close>

record Process =
  process_platform :: string
  HOST_DB_CACHE_DIR :: "string option"
  XDG_CACHE_HOME :: "string option"
  LOCALAPPDATA :: "string option"
  homedir :: string

text \<open>\<^verbatim>\<open>a || b\<close> for an optional string \<^verbatim>\<open>a\<close>.\<close>

definition or_else :: "string option \<Rightarrow> string \<Rightarrow> string" where
  "or_else a b = (case a of None \<Rightarrow> b | Some v \<Rightarrow> if v \<noteq> [] then v else b)"

definition getCacheDir :: "Process \<Rightarrow> string option \<Rightarrow> string" where
  "getCacheDir process cacheDir =
     (if truthy cacheDir then the cacheDir
      else if truthy (HOST_DB_CACHE_DIR process) then the (HOST_DB_CACHE_DIR process)
      else if process_platform process \<noteq> ''win32'' \<and> truthy (XDG_CACHE_HOME process)
        then join [the (XDG_CACHE_HOME process), ''host-db'']
      else if process_platform process = ''win32''
        then join [or_else (LOCALAPPDATA process)
                     (join [homedir process, ''AppData'', ''Local'']),
                   ''host-db'', ''cache'']
      else join [homedir process, ''.cache'', ''host-db''])"

text \<open>The key of the cache is the database, the version and the platform.\<close>

definition getArchiveCachePath ::
  "Process \<Rightarrow> string \<Rightarrow> string \<Rightarrow> string \<Rightarrow> string option \<Rightarrow> string"
where
  "getArchiveCachePath process db ver plat cacheDir =
     join [getCacheDir process cacheDir, db, ver, plat @ ''.tar.gz'']"

text \<open>\<^verbatim>\<open>existsSync(p)\<close>, and \<^verbatim>\<open>access(p)\<close> resolving: there is a file at the path.\<close>

definition existsSync :: "files \<Rightarrow> string \<Rightarrow> bool" where
  "existsSync fs p = (p \<in> dom fs)"

definition getCachedArchive ::
  "Process \<Rightarrow> files \<Rightarrow> string \<Rightarrow> string \<Rightarrow> string \<Rightarrow> string option \<Rightarrow> string option"
where
  "getCachedArchive process fs db ver plat cacheDir =
     (let archivePath = getArchiveCachePath process db ver plat cacheDir
      in if existsSync fs archivePath then Some archivePath else None)"

section \<open>The generated installer (install.js)\<close>

record Config =
  cfg_database :: string
  cfg_displayName :: string
  cfg_version :: string
  cfg_majorVersion :: string
  cfg_platform :: string
  cfg_downloadUrl :: string
  cfg_checksum :: string
  cfg_binaries :: "string list"

text \<open>
  \<^verbatim>\<open>archivePath.replace(/\.(tar\.gz|zip)$/, archiveExt)\<close>: the pattern is anchored at
  the end, so it matches a suffix, and a string has at most one of the two.
\<close>

definition replace_archive_suffix :: "string \<Rightarrow> string \<Rightarrow> string" where
  "replace_archive_suffix p archiveExt =
     (if endsWith p ''.tar.gz'' then take (length p - 7) p @ archiveExt
      else if endsWith p ''.zip'' then take (length p - 4) p @ archiveExt
      else p)"

text \<open>
  The part of \<^verbatim>\<open>main\<close> that obtains the archive: the path of the archive to extract and
  whether it was found in the cache or downloaded, or the error of the download; and the
  files afterwards. \<^verbatim>\<open>opened\<close> is passed on to \<^const>\<open>downloadFile\<close>.
\<close>

datatype archive_source = Cached | Downloaded

definition install_archive ::
  "(checksum_algorithm \<Rightarrow> bytes \<Rightarrow> string) \<Rightarrow> (string \<Rightarrow> error + stream Response)
    \<Rightarrow> bool \<Rightarrow> Process \<Rightarrow> Config \<Rightarrow> files
    \<Rightarrow> (error + archive_source \<times> string) \<times> files"
where
  "install_archive hex_digest fetch opened process CONFIG fs =
     (let archiveExt = (if endsWith (cfg_downloadUrl CONFIG) ''.zip'' then ''.zip''
                        else ''.tar.gz'');
          found = getCachedArchive process fs (cfg_database CONFIG) (cfg_version CONFIG)
                    (cfg_platform CONFIG) None;
          archivePath =
            (if truthy found \<and> \<not> endsWith (the found) archiveExt
             then Some (replace_archive_suffix (the found) archiveExt)
             else found)
      in if \<not> truthy archivePath \<or> \<not> existsSync fs (the archivePath) then
           (let cacheDir = getCacheDir process None;
                target = join [cacheDir, cfg_database CONFIG, cfg_version CONFIG,
                               cfg_platform CONFIG @ archiveExt]
            in case downloadFile hex_digest fetch opened
                      \<lparr>url = cfg_downloadUrl CONFIG, destination = target,
                       expectedChecksum =
                         (if cfg_checksum CONFIG \<noteq> ''sha256:PLACEHOLDER''
                          then Some (cfg_checksum CONFIG) else None),
                       checksumAlgorithm = None\<rparr> fs of
                 (Inl e, fs') \<Rightarrow> (Inl e, fs')
               | (Inr result, fs') \<Rightarrow> (Inr (Downloaded, target), fs'))
         else (Inr (Cached, the archivePath), fs))"

subsection \<open>The canonical path as the specification words it\<close>

definition archive_extension :: "string \<Rightarrow> string" where
  "archive_extension sourceUrl = (if endsWith sourceUrl ''.zip'' then ''zip'' else ''tar.gz'')"

definition canonical_path :: "string \<Rightarrow> string \<Rightarrow> string \<Rightarrow> string \<Rightarrow> string \<Rightarrow> string" where
  "canonical_path cacheRoot db ver plat ext = join [cacheRoot, db, ver, plat @ ''.'' @ ext]"

subsection \<open>Example inputs\<close>

definition example_process :: Process where
  "example_process =
     \<lparr>process_platform = ''linux'', HOST_DB_CACHE_DIR = None, XDG_CACHE_HOME = None,
      LOCALAPPDATA = None, homedir = ''/home/u''\<rparr>"

definition example_config :: "string \<Rightarrow> Config" where
  "example_config downloadUrl =
     \<lparr>cfg_database = ''mariadb'', cfg_displayName = ''MariaDB'', cfg_version = ''11.4.5'',
      cfg_majorVersion = ''11.4'', cfg_platform = ''linux-arm64'',
      cfg_downloadUrl = downloadUrl,
      cfg_checksum = ''sha256:'' @ digest_a,
      cfg_binaries = [''bin/mariadbd'']\<rparr>"

subsection \<open>A device of the proofs\<close>

text \<open>
  What \<^const>\<open>normalize\<close> makes of a path up to an extension appended to it, and what
  \<^const>\<open>join\<close> makes of its arguments up to an extension of the last one.
\<close>

definition path_stem :: "string \<Rightarrow> string" where
  "path_stem s =
     (let isAbsolute = (s \<noteq> [] \<and> hd s = CHR ''/'');
          segs = split_on (CHR ''/'') s;
          kept = foldl (push_segment (\<not> isAbsolute)) [] (butlast segs)
      in (if isAbsolute then ''/'' else [])
         @ (if kept = [] then [] else join_with ''/'' kept @ ''/'')
         @ last segs)"

definition join_stem :: "string list \<Rightarrow> string \<Rightarrow> string" where
  "join_stem args p =
     path_stem (if filter (\<lambda>arg. arg \<noteq> []) args = [] then p
                else join_with ''/'' (filter (\<lambda>arg. arg \<noteq> []) args) @ ''/'' @ p)"

section \<open>Theorems\<close>

subsection \<open>Platform detection\<close>

lemma detectPlatform_cases:
  "detectPlatform p a = Inr r \<longleftrightarrow>
     (p, a, r) \<in> {(''linux'', ''x64'', ''linux-x64''), (''linux'', ''arm64'', ''linux-arm64''),
                  (''darwin'', ''arm64'', ''darwin-arm64''), (''win32'', ''x64'', ''win32-x64'')}"
  unfolding detectPlatform_def by (auto split: if_splits)

lemma extractPlatform_Some:
  "extractPlatform f = Some p \<Longrightarrow> p \<in> set PLATFORMS \<and> str_includes f p"
  unfolding extractPlatform_def by (auto simp: find_Some_iff)

lemma extractPlatform_None:
  "extractPlatform f = None \<longleftrightarrow> (\<forall>p \<in> set PLATFORMS. \<not> str_includes f p)"
  unfolding extractPlatform_def by (auto simp: find_None_iff)

text \<open>
  C9, as stated: detection succeeds on each of the five tuples (linux, x64), (linux, arm64),
  (darwin, x64), (darwin, arm64), (win32, x64). It does not: the host (darwin, x64) is
  rejected with the unsupported-platform error.
\<close>

theorem detectPlatform_darwin_x64_unsupported:
  "detectPlatform ''darwin'' ''x64'' = Inl (UnsupportedPlatform ''darwin'' ''x64'')"
  by (simp add: detectPlatform_def)

lemma extractPlatform_first:
  "extractPlatform filename =
     (if str_includes filename ''linux-x64'' then Some ''linux-x64''
      else if str_includes filename ''linux-arm64'' then Some ''linux-arm64''
      else if str_includes filename ''darwin-x64'' then Some ''darwin-x64''
      else if str_includes filename ''darwin-arm64'' then Some ''darwin-arm64''
      else if str_includes filename ''win32-x64'' then Some ''win32-x64''
      else None)"
  unfolding extractPlatform_def PLATFORMS_def by simp

lemma extractPlatform_two_identifiers:
  "extractPlatform ''db-darwin-x64-to-linux-arm64.tar.gz'' = Some ''linux-arm64''"
  unfolding extractPlatform_def PLATFORMS_def str_includes_def
  by (simp add: sublist_code)

text \<open>
  C9, amended: detection succeeds exactly on the four tuples (linux, x64), (linux, arm64),
  (darwin, arm64), (win32, x64), returning the identifier \<open>os-arch\<close>, one of the four
  supported platforms; on every other tuple, (darwin, x64) included, it raises the
  unsupported-platform error naming the tuple. Asset classification is gated by the five
  identifiers of \<open>PLATFORMS\<close>: a filename is classified with the first of the five, in the
  order linux-x64, linux-arm64, darwin-x64, darwin-arm64, win32-x64, that it contains, and
  is unclassified when it contains none. The last conjunct is the position of the result:
  no identifier earlier in \<open>PLATFORMS\<close> occurs in the filename.
\<close>

theorem detectPlatform_four_tuples:
  "(if (os, arch) \<in> {(''linux'', ''x64''), (''linux'', ''arm64''),
                      (''darwin'', ''arm64''), (''win32'', ''x64'')}
    then detectPlatform os arch = Inr (os @ ''-'' @ arch)
       \<and> os @ ''-'' @ arch \<in> set SUPPORTED_PLATFORMS
    else detectPlatform os arch = Inl (UnsupportedPlatform os arch))
   \<and> PLATFORMS =
       [''linux-x64'', ''linux-arm64'', ''darwin-x64'', ''darwin-arm64'', ''win32-x64'']
   \<and> extractPlatform filename =
       (if str_includes filename ''linux-x64'' then Some ''linux-x64''
        else if str_includes filename ''linux-arm64'' then Some ''linux-arm64''
        else if str_includes filename ''darwin-x64'' then Some ''darwin-x64''
        else if str_includes filename ''darwin-arm64'' then Some ''darwin-arm64''
        else if str_includes filename ''win32-x64'' then Some ''win32-x64''
        else None)
   \<and> (case extractPlatform filename of
        Some p \<Rightarrow> str_includes filename p
          \<and> list_all (\<lambda>q. \<not> str_includes filename q) (takeWhile (\<lambda>q. q \<noteq> p) PLATFORMS)
      | None \<Rightarrow> list_all (\<lambda>q. \<not> str_includes filename q) PLATFORMS)"
proof -
  have b: "(if (os, arch) \<in> {(''linux'', ''x64''), (''linux'', ''arm64''),
                      (''darwin'', ''arm64''), (''win32'', ''x64'')}
    then detectPlatform os arch = Inr (os @ ''-'' @ arch)
       \<and> os @ ''-'' @ arch \<in> set SUPPORTED_PLATFORMS
    else detectPlatform os arch = Inl (UnsupportedPlatform os arch))"
    by (auto simp: detectPlatform_def SUPPORTED_PLATFORMS_def)
  have c: "(case extractPlatform filename of
        Some p \<Rightarrow> str_includes filename p
          \<and> list_all (\<lambda>q. \<not> str_includes filename q) (takeWhile (\<lambda>q. q \<noteq> p) PLATFORMS)
      | None \<Rightarrow> list_all (\<lambda>q. \<not> str_includes filename q) PLATFORMS)"
    unfolding extractPlatform_first PLATFORMS_def by simp
  show ?thesis using b c extractPlatform_first [of filename] by (simp add: PLATFORMS_def)
qed
subsection \<open>The discrepancy detector\<close>

lemma get_property_plain:
  "k \<notin> set Object_prototype_members \<Longrightarrow>
     get_property obj k = (case map_of obj k of Some v \<Rightarrow> Own v | None \<Rightarrow> Undefined)"
  by (simp add: get_property_def)

lemma get_property_own:
  "map_of obj k = Some v \<Longrightarrow> get_property obj k = Own v"
  by (simp add: get_property_def)

lemma enabled_keys_eq: "enabled_keys r = map fst (filter snd r)"
  by (simp add: enabled_keys_def case_prod_unfold)

lemma flag_set_plain:
  assumes "distinct (map fst r)" and "k \<notin> set Object_prototype_members"
  shows "flag_set r k \<longleftrightarrow> (k, True) \<in> set r"
proof (cases "map_of r k")
  case None
  then have "(k, True) \<notin> set r"
    by (metis map_of_eq_None_iff fst_conv image_eqI)
  with None assms(2) show ?thesis
    by (simp add: flag_set_def get_property_def)
next
  case (Some b)
  then have "(k, True) \<in> set r \<longleftrightarrow> b"
    using map_of_eq_Some_iff [OF assms(1), of k True] by simp
  with Some show ?thesis
    by (simp add: flag_set_def get_property_def)
qed

lemma flag_set_inherited:
  "flag_set [(''8.4'', True)] ''toString''" "\<not> flag_set [(''8.4'', True)] ''8.0''"
  by (simp_all add: flag_set_def get_property_def Object_prototype_members_def)

lemma missing_platforms_loop_eq:
  "missing_platforms_loop dbId v rel ps ds =
     ds @ map (missing_platform_of dbId v) (filter (\<lambda>p. p \<notin> set rel) ps)"
  by (induction ps arbitrary: ds) simp_all

lemma missing_versions_loop_eq:
  assumes "list_all (\<lambda>k. k \<notin> set Object_prototype_members) vs"
  shows "missing_versions_loop reads_falsy dbId (Own released) eps vs ds =
     Inr (ds @ concat (map (\<lambda>v.
            (case map_of released v of
               None \<Rightarrow> [missing_version_of dbId v]
             | Some release \<Rightarrow>
                 map (missing_platform_of dbId v)
                   (filter (\<lambda>p. p \<notin> fst ` set (released_platforms release)) eps))) vs))"
  using assms
  by (induction vs arbitrary: ds)
     (simp_all add: missing_platforms_loop_eq get_property_plain split: option.split)

lemma plain_keys_lookup:
  assumes "plain_keys obj" and "(k, v) \<in> set obj"
  shows "map_of obj k = Some v" and "k \<notin> set Object_prototype_members"
proof -
  from assms show "map_of obj k = Some v"
    by (simp add: plain_keys_def)
  from assms show "k \<notin> set Object_prototype_members"
    by (force simp: plain_keys_def list_all_iff)
qed

lemma plain_keys_enabled:
  assumes "plain_keys r"
  shows "list_all (\<lambda>k. k \<notin> set Object_prototype_members) (map fst (filter snd r))"
  using assms by (auto simp: plain_keys_def list_all_iff)

lemma desired_loop_eq:
  assumes "plain_keys databases"
    and "list_all (\<lambda>(dbId, entry). plain_keys (versions entry)) databases"
  shows "set es \<subseteq> set databases \<Longrightarrow>
    desired_loop reads_falsy databases releases (map fst es) ds =
      Inr (ds @ concat (map (spec_desired_database releases) es))"
proof (induction es arbitrary: ds)
  case Nil
  then show ?case by simp
next
  case (Cons e es)
  obtain dbId entry where e: "e = (dbId, entry)" by (cases e)
  from Cons.prems e have mem: "(dbId, entry) \<in> set databases" by simp
  have look: "get_property databases dbId = Own entry"
    using plain_keys_lookup(1) [OF assms(1) mem] by (rule get_property_own)
  have plain: "dbId \<notin> set Object_prototype_members"
    by (rule plain_keys_lookup(2) [OF assms(1) mem])
  from assms(2) mem have "plain_keys (versions entry)"
    by (auto simp: list_all_iff)
  then have vs: "list_all (\<lambda>k. k \<notin> set Object_prototype_members)
                   (map fst (filter snd (versions entry)))"
    by (rule plain_keys_enabled)
  from Cons.prems have sub: "set es \<subseteq> set databases" by simp
  show ?case
  proof (cases "map_of releases dbId")
    case None
    then have "get_property releases dbId = Undefined"
      using plain by (simp add: get_property_plain)
    then show ?thesis
      using Cons.IH [OF sub] look e None
      by (simp add: spec_desired_database_def enabled_keys_eq)
  next
    case (Some released)
    then have r: "get_property releases dbId = Own released"
      by (rule get_property_own)
    show ?thesis
      using Cons.IH [OF sub] look e Some r missing_versions_loop_eq [OF vs]
      by (simp add: spec_desired_database_def enabled_keys_eq)
  qed
qed

lemma orphaned_platforms_loop_eq:
  "orphaned_platforms_loop entry dbId v ps ds =
     ds @ map (orphaned_platform_of dbId v) (filter (\<lambda>p. \<not> flag_set (platforms entry) p) ps)"
  by (induction ps arbitrary: ds) simp_all

lemma orphaned_versions_loop_eq:
  "orphaned_versions_loop entry dbId released ds =
     ds @ concat (map (\<lambda>(v, release).
            (if \<not> flag_set (versions entry) v then [orphaned_version_of dbId v]
             else map (orphaned_platform_of dbId v)
                    (filter (\<lambda>p. \<not> flag_set (platforms entry) p)
                       (map fst (released_platforms release))))) released)"
  by (induction released arbitrary: ds) (auto simp: orphaned_platforms_loop_eq)

lemma orphaned_versions_plain:
  assumes e: "plain_keys (versions entry)" "plain_keys (platforms entry)"
    and r: "plain_keys released"
      "list_all (\<lambda>(v, release). plain_keys (released_platforms release)) released"
  shows "map (\<lambda>(v, release).
            (if \<not> flag_set (versions entry) v then [orphaned_version_of dbId v]
             else map (orphaned_platform_of dbId v)
                    (filter (\<lambda>p. \<not> flag_set (platforms entry) p)
                       (map fst (released_platforms release))))) released
       = map (\<lambda>(v, release).
            (if (v, True) \<notin> set (versions entry) then [orphaned_version_of dbId v]
             else map (orphaned_platform_of dbId v)
                    (filter (\<lambda>p. (p, True) \<notin> set (platforms entry))
                       (map fst (released_platforms release))))) released"
proof (rule map_cong [OF refl])
  fix x assume x: "x \<in> set released"
  obtain v release where xv: "x = (v, release)" by (cases x)
  from e have dv: "distinct (map fst (versions entry))"
    and dp: "distinct (map fst (platforms entry))"
    by (simp_all add: plain_keys_def)
  have pv: "v \<notin> set Object_prototype_members"
    using plain_keys_lookup(2) [OF r(1)] x xv by simp
  from r(2) x xv have pr: "plain_keys (released_platforms release)"
    by (auto simp: list_all_iff)
  have fv: "flag_set (versions entry) v \<longleftrightarrow> (v, True) \<in> set (versions entry)"
    by (rule flag_set_plain [OF dv pv])
  have fp: "filter (\<lambda>p. \<not> flag_set (platforms entry) p) (map fst (released_platforms release))
          = filter (\<lambda>p. (p, True) \<notin> set (platforms entry))
              (map fst (released_platforms release))"
  proof (rule filter_cong [OF refl])
    fix p assume "p \<in> set (map fst (released_platforms release))"
    then have "p \<notin> set Object_prototype_members"
      using pr by (auto simp: plain_keys_def list_all_iff)
    then show "(\<not> flag_set (platforms entry) p) = ((p, True) \<notin> set (platforms entry))"
      using flag_set_plain [OF dp] by simp
  qed
  show "(case x of (v, release) \<Rightarrow>
            (if \<not> flag_set (versions entry) v then [orphaned_version_of dbId v]
             else map (orphaned_platform_of dbId v)
                    (filter (\<lambda>p. \<not> flag_set (platforms entry) p)
                       (map fst (released_platforms release)))))
      = (case x of (v, release) \<Rightarrow>
            (if (v, True) \<notin> set (versions entry) then [orphaned_version_of dbId v]
             else map (orphaned_platform_of dbId v)
                    (filter (\<lambda>p. (p, True) \<notin> set (platforms entry))
                       (map fst (released_platforms release)))))"
    by (simp add: xv fv fp)
qed

lemma actual_loop_eq:
  assumes d: "plain_keys databases"
    "list_all (\<lambda>(dbId, entry). plain_keys (versions entry) \<and> plain_keys (platforms entry))
       databases"
  shows "list_all (\<lambda>k. k \<notin> set Object_prototype_members) (map fst releases) \<Longrightarrow>
     list_all (\<lambda>(dbId, released).
            plain_keys released
            \<and> list_all (\<lambda>(v, release). plain_keys (released_platforms release)) released)
          releases \<Longrightarrow>
     actual_loop databases releases ds =
       Inr (ds @ concat (map (spec_actual_database databases) releases))"
proof (induction releases arbitrary: ds)
  case Nil
  then show ?case by simp
next
  case (Cons x rest)
  obtain dbId released where x: "x = (dbId, released)" by (cases x)
  from Cons.prems x have plain: "dbId \<notin> set Object_prototype_members"
    and r: "plain_keys released"
      "list_all (\<lambda>(v, release). plain_keys (released_platforms release)) released"
    and rest1: "list_all (\<lambda>k. k \<notin> set Object_prototype_members) (map fst rest)"
    and rest2: "list_all (\<lambda>(dbId, released).
            plain_keys released
            \<and> list_all (\<lambda>(v, release). plain_keys (released_platforms release)) released)
          rest"
    by simp_all
  note IH = Cons.IH [OF rest1 rest2]
  show ?case
  proof (cases "map_of databases dbId")
    case None
    then show ?thesis
      using IH plain x by (simp add: get_property_plain spec_actual_database_def)
  next
    case (Some entry)
    then have mem: "(dbId, entry) \<in> set databases" by (rule map_of_SomeD)
    with d(2) have e: "plain_keys (versions entry)" "plain_keys (platforms entry)"
      by (auto simp: list_all_iff)
    have ov: "orphaned_versions_loop entry dbId released ds
        = ds @ concat (map (\<lambda>(v, release).
            (if (v, True) \<notin> set (versions entry) then [orphaned_version_of dbId v]
             else map (orphaned_platform_of dbId v)
                    (filter (\<lambda>p. (p, True) \<notin> set (platforms entry))
                       (map fst (released_platforms release))))) released)"
      by (simp only: orphaned_versions_loop_eq orphaned_versions_plain [OF e r])
    show ?thesis
      using IH plain x Some
      by (simp add: get_property_plain spec_actual_database_def ov)
  qed
qed

lemma discrepancies_of_eq:
  assumes "plain_snapshots desired actual"
  shows "discrepancies_of reads_falsy desired actual = Inr (computeDiscrepancies desired actual)"
proof -
  from assms have d: "plain_keys desired"
    and e: "list_all (\<lambda>(dbId, entry). plain_keys (versions entry) \<and> plain_keys (platforms entry))
              desired"
    and a1: "list_all (\<lambda>k. k \<notin> set Object_prototype_members) (map fst actual)"
    and a2: "list_all (\<lambda>(dbId, released).
            plain_keys released
            \<and> list_all (\<lambda>(v, release). plain_keys (released_platforms release)) released)
          actual"
    by (simp_all add: plain_snapshots_def plain_keys_def)
  from e have e1: "list_all (\<lambda>(dbId, entry). plain_keys (versions entry)) desired"
    by (auto simp: list_all_iff)
  have act: "filter (\<lambda>(_, entry). is_active entry) desired
           = filter (\<lambda>(dbId, entry). status entry \<in> {''in-progress'', ''completed''}) desired"
    by (rule filter_cong [OF refl]) (auto simp: is_active_def)
  have "set (filter (\<lambda>(_, entry). is_active entry) desired) \<subseteq> set desired" by auto
  from desired_loop_eq [OF d e1 this, of reads_falsy actual "[]"]
  show ?thesis
    by (simp add: discrepancies_of_def computeDiscrepancies_def activeDatabases_def
        actual_loop_eq [OF d e a1 a2] spec_desired_pass_def spec_actual_pass_def act)
qed

lemma findDiscrepancies_parsed:
  "findDiscrepancies reads_falsy (Parses d) (Parses a) = discrepancies_of reads_falsy d a"
  by (simp add: findDiscrepancies_def existsSync_json_def)

text \<open>
  On snapshots none of whose keys names a member of \<^verbatim>\<open>Object.prototype\<close> the detector
  returns, whatever the runtime, the desired-side pass followed by the actual-side pass as
  the specification words them.
\<close>

lemma findDiscrepancies_plain_snapshots:
  assumes "plain_snapshots desired actual"
  shows "findDiscrepancies reads_falsy (Parses desired) (Parses actual)
           = Inr (spec_desired_pass desired actual @ spec_actual_pass desired actual)"
  using discrepancies_of_eq [OF assms, of reads_falsy]
  by (simp add: findDiscrepancies_parsed computeDiscrepancies_def)

lemma scenarioA_discrepancies:
  "findDiscrepancies reads_falsy (Parses scenarioA_desired) (Parses [])
     = Inr [missing_release_of ''mysql'' 1]"
  by (simp add: findDiscrepancies_parsed discrepancies_of_def scenarioA_desired_def
      activeDatabases_def is_active_def enabled_keys_def get_property_def
      Object_prototype_members_def)

lemma scenarioB_plain: "plain_snapshots scenarioB_desired scenarioB_actual"
  by (simp add: plain_snapshots_def plain_keys_def scenarioB_desired_def scenarioB_actual_def
      Object_prototype_members_def)

lemma scenarioB_discrepancies:
  "findDiscrepancies reads_falsy (Parses scenarioB_desired) (Parses scenarioB_actual)
     = Inr [orphaned_platform_of ''mysql'' ''8.4'' ''darwin-arm64'']"
  unfolding findDiscrepancies_plain_snapshots [OF scenarioB_plain]
  by (simp add: spec_desired_pass_def spec_actual_pass_def
      spec_desired_database_def spec_actual_database_def scenarioB_desired_def
      scenarioB_actual_def)

lemma constructor_discrepancies:
  "findDiscrepancies reads_falsy (Parses constructor_desired) (Parses [])
     = (if reads_falsy ''constructor'' ''8.4''
        then Inr [missing_version_of ''constructor'' ''8.4'']
        else Inl TypeError)"
  by (simp add: findDiscrepancies_parsed discrepancies_of_def constructor_desired_def
      activeDatabases_def is_active_def enabled_keys_def get_property_def
      Object_prototype_members_def)

lemma constructor_specified:
  "spec_desired_pass constructor_desired [] @ spec_actual_pass constructor_desired []
     = [missing_release_of ''constructor'' 1]"
  by (simp add: spec_desired_pass_def spec_actual_pass_def spec_desired_database_def
      constructor_desired_def)

text \<open>
  C1. The claim: for every pair of snapshots, an active database absent from actual that
  has an enabled version gives exactly one missing-release (and so on through the two
  passes). The code tests absence by the truthiness of \<^verbatim>\<open>releases.databases[dbId]\<close>, and
  that read also finds what the object inherits from \<^verbatim>\<open>Object.prototype\<close>. Below, the
  desired snapshot has the active database \<open>constructor\<close> with the enabled version 8.4 (and
  a version that is not enabled, and a database that is not started), and actual is empty.
  The database is absent from actual and the claim gives one missing-release for it; the
  code finds the inherited \<^verbatim>\<open>constructor\<close>, takes the database for released, and reports
  the version 8.4 as a missing-version instead.
\<close>

theorem findDiscrepancies_inherited_member_taken_for_release:
  "findDiscrepancies example_runtime (Parses constructor_desired) (Parses [])
     = Inr [missing_version_of ''constructor'' ''8.4'']
   \<and> spec_desired_pass constructor_desired [] @ spec_actual_pass constructor_desired []
     = [missing_release_of ''constructor'' 1]
   \<and> type (missing_version_of ''constructor'' ''8.4'') = missing_version
   \<and> type (missing_release_of ''constructor'' 1) = missing_release"
proof -
  have r: "example_runtime ''constructor'' ''8.4''"
    by (simp add: example_runtime_def)
  have 1: "findDiscrepancies example_runtime (Parses constructor_desired) (Parses [])
     = Inr [missing_version_of ''constructor'' ''8.4'']"
    using r by (simp only: constructor_discrepancies if_True)
  show ?thesis
    by (intro conjI 1 constructor_specified)
       (simp_all add: missing_version_of_def missing_release_of_def)
qed

theorem findDiscrepancies_inherited_member_taken_for_release_witness:
  "findDiscrepancies example_runtime (Parses constructor_desired) (Parses [])
     \<noteq> Inr (spec_desired_pass constructor_desired [] @ spec_actual_pass constructor_desired [])"
proof -
  note T = findDiscrepancies_inherited_member_taken_for_release
  have t: "type (missing_version_of ''constructor'' ''8.4'') = missing_version"
    "type (missing_release_of ''constructor'' 1) = missing_release"
    using T by (rule conjunct1 [OF conjunct2 [OF conjunct2]],
        rule conjunct2 [OF conjunct2 [OF conjunct2]])
  have "type (missing_version_of ''constructor'' ''8.4'')
          \<noteq> type (missing_release_of ''constructor'' 1)"
    unfolding t by simp
  then have d: "missing_version_of ''constructor'' ''8.4'' \<noteq> missing_release_of ''constructor'' 1"
    by (rule contrapos_nn) (erule arg_cong)
  show ?thesis
    unfolding conjunct1 [OF T] conjunct1 [OF conjunct2 [OF T]] using d by simp
qed

text \<open>
  C4, as stated: a state file that is missing or malformed gives the empty list and no
  error. With both files present and the desired-state file malformed, parsing raises.
\<close>

theorem findDiscrepancies_malformed_raises:
  "findDiscrepancies example_runtime Unparsable (Parses []) = Inl SyntaxError
   \<and> findDiscrepancies example_runtime Unparsable (Parses []) \<noteq> Inr []"
  by (simp add: findDiscrepancies_def existsSync_json_def)

text \<open>
  C4, amended: when the desired-state file or the actual-state file is missing, the detector
  returns the empty list and raises nothing; when both files exist and one of them holds
  text that is not JSON, the parse error is raised and no list is returned.
\<close>

theorem findDiscrepancies_missing_or_malformed:
  "(databasesFile = Absent \<or> releasesFile = Absent \<longrightarrow>
      findDiscrepancies reads_falsy databasesFile releasesFile = Inr [])
   \<and> (databasesFile \<noteq> Absent \<and> releasesFile \<noteq> Absent
        \<and> (databasesFile = Unparsable \<or> releasesFile = Unparsable) \<longrightarrow>
      findDiscrepancies reads_falsy databasesFile releasesFile = Inl SyntaxError)"
  by (cases databasesFile; cases releasesFile)
     (simp_all add: findDiscrepancies_def existsSync_json_def)

theorem findDiscrepancies_missing_or_malformed_witness:
  "findDiscrepancies example_runtime Absent (Parses scenarioB_actual) = Inr []
   \<and> findDiscrepancies example_runtime (Parses scenarioB_desired) Absent = Inr []
   \<and> findDiscrepancies example_runtime (Parses scenarioB_desired) Unparsable
       = Inl SyntaxError"
  using findDiscrepancies_missing_or_malformed
      [where databasesFile = Absent and releasesFile = "Parses scenarioB_actual"
         and reads_falsy = example_runtime]
    findDiscrepancies_missing_or_malformed
      [where databasesFile = "Parses scenarioB_desired" and releasesFile = Absent
         and reads_falsy = example_runtime]
    findDiscrepancies_missing_or_malformed
      [where databasesFile = "Parses scenarioB_desired" and releasesFile = Unparsable
         and reads_falsy = example_runtime]
  by simp
subsection \<open>Checksum manifests\<close>

lemma split_on_no_sep: "c \<notin> set s \<Longrightarrow> split_on c s = [s]"
  by (induction s) auto

lemma split_on_append: "c \<notin> set s \<Longrightarrow> split_on c (s @ c # t) = s # split_on c t"
  by (induction s) auto







lemma map_insort_key_fst: "map f (insort_key f x ys) = insort (f x) (map f ys)"
  by (induction ys) auto

lemma map_sort_key: "map f (sort_key f xs) = sort (map f xs)"
  by (induction xs) (auto simp: map_insort_key_fst)

lemma checksum_lines_entries:
  assumes "distinct (map fst m)"
  shows "checksum_lines m = map (\<lambda>(f, d). d @ ''  '' @ f) (sort_key fst m)"
proof -
  have "map (\<lambda>filename.
            (case map_of m filename of Some hash \<Rightarrow> hash | None \<Rightarrow> ''undefined'')
            @ ''  '' @ filename) (map fst (sort_key fst m))
        = map (\<lambda>(f, d). d @ ''  '' @ f) (sort_key fst m)"
    using assms by (auto simp: map_of_eq_Some_iff [OF assms])
  then show ?thesis
    by (simp add: checksum_lines_def map_sort_key [symmetric])
qed













lemma proto_filename_not_read:
  "parseChecksums (manifest_content [(''__proto__'', digest_a)]) ''__proto__'' = None"
  by code_simp




subsection \<open>Downloading\<close>

lemma read_chunks_eq:
  "read_chunks chunks (h, w, n)
     = (h @ concat chunks, w @ concat chunks, n + length (concat chunks))"
  by (induction chunks arbitrary: h w n) simp_all

lemma split_on_not_Nil: "split_on c s \<noteq> []"
  by (induction s) (auto split: list.split)

lemma split_on_parts: "c \<in> set s \<Longrightarrow> 2 \<le> length (split_on c s)"
proof (induction s)
  case Nil
  then show ?case by simp
next
  case (Cons x s)
  show ?case
  proof (cases "x = c")
    case True
    then show ?thesis
      using split_on_not_Nil [of c s] by (cases "split_on c s") simp_all
  next
    case False
    with Cons show ?thesis
      by (cases "split_on c s") auto
  qed
qed

lemma expected_digest_prefixed:
  assumes "CHR '':'' \<notin> set a" and "CHR '':'' \<notin> set h"
  shows "expected_digest (a @ '':'' @ h) = h"
  using assms by (simp add: expected_digest_def split_on_append split_on_no_sep)

lemma expected_digest_bare: "CHR '':'' \<notin> set h \<Longrightarrow> expected_digest h = h"
  by (simp add: expected_digest_def)

lemma downloadFile_streamed:
  assumes "fetch (url options) = Inr response"
    and "ok response"
    and "body response = Some (chunks, ending)"
  shows "downloadFile hex_digest fetch opened options fs =
     (let algorithm = (case checksumAlgorithm options of None \<Rightarrow> Sha256 | Some a \<Rightarrow> a);
          actualChecksum = hex_digest algorithm (concat chunks);
          result = \<lparr>path = destination options, size_bytes = length (concat chunks),
                    checksum = algorithm_name algorithm @ '':'' @ actualChecksum\<rparr>
      in case ending of
           Failed e \<Rightarrow>
             (Inl (TransportError e),
              if opened then fs(destination options := None)
              else fs(destination options \<mapsto> []))
         | Done \<Rightarrow>
             (case expectedChecksum options of
                None \<Rightarrow> (Inr result, fs(destination options \<mapsto> concat chunks))
              | Some given \<Rightarrow>
                  if given \<noteq> [] \<and> actualChecksum \<noteq> expected_digest given
                  then (Inl (ChecksumMismatch (url options) (expected_digest given)
                               actualChecksum),
                        fs(destination options := None))
                  else (Inr result, fs(destination options \<mapsto> concat chunks))))"
  using assms
  by (simp add: downloadFile_def read_chunks_eq Let_def split: stream_end.split option.split)

lemma digest_a_no_colon: "CHR '':'' \<notin> set digest_a"
  by (simp add: digest_a_def)

lemma example_expected_digest: "expected_digest example_expected = digest_a"
  using expected_digest_prefixed [of "''sha256''" digest_a] digest_a_no_colon
  by (simp add: example_expected_def)

lemma example_expected_given: "example_expected \<noteq> []"
  by (simp add: example_expected_def)

lemma digests_differ:
  "digest_a \<noteq> digest_b" "digest_b \<noteq> digest_a"
  "digest_c \<noteq> digest_a" "digest_a \<noteq> digest_c"
  by (simp_all add: digest_a_def digest_b_def digest_c_def)

lemma example_response:
  "example_fetch (ok_response b) u = Inr (ok_response b)"
  "ok (ok_response b)"
  "body (ok_response b) = Some b"
  by (simp_all add: example_fetch_def ok_response_def)

lemma example_options_fields:
  "url example_options = ''https://example.org/db.tar.gz''"
  "destination example_options = ''/cache/db.tar.gz''"
  "expectedChecksum example_options = Some example_expected"
  "checksumAlgorithm example_options = None"
  by (simp_all add: example_options_def)

lemma downloadFile_outcomes:
  assumes "fetch (url options) = Inr response"
    and "ok response"
    and "body response = Some (chunks, ending)"
    and "algorithm = (case checksumAlgorithm options of None \<Rightarrow> Sha256 | Some a \<Rightarrow> a)"
  shows "(\<forall>e. ending = Failed e \<longrightarrow>
            downloadFile hex_digest fetch opened options fs
              = (Inl (TransportError e),
                 if opened then fs(destination options := None)
                 else fs(destination options \<mapsto> []))
            \<and> snd (downloadFile hex_digest fetch opened options fs) (destination options)
                = (if opened then None else Some []))
       \<and> (\<forall>given. ending = Done \<and> expectedChecksum options = Some given \<and> given \<noteq> [] \<longrightarrow>
            (if hex_digest algorithm (concat chunks) = expected_digest given
             then downloadFile hex_digest fetch opened options fs
                    = (Inr \<lparr>path = destination options,
                            size_bytes = length (concat chunks),
                            checksum = algorithm_name algorithm @ '':''
                                         @ hex_digest algorithm (concat chunks)\<rparr>,
                       fs(destination options \<mapsto> concat chunks))
                  \<and> snd (downloadFile hex_digest fetch opened options fs)
                        (destination options)
                      = Some (concat chunks)
             else downloadFile hex_digest fetch opened options fs
                    = (Inl (ChecksumMismatch (url options) (expected_digest given)
                              (hex_digest algorithm (concat chunks))),
                       fs(destination options := None))
                  \<and> snd (downloadFile hex_digest fetch opened options fs)
                        (destination options)
                      = None))"
  using assms
    downloadFile_streamed [where fetch = fetch and options = options and response = response
      and chunks = chunks and ending = ending and hex_digest = hex_digest and fs = fs
      and opened = opened]
  by (auto simp: Let_def)

lemma downloadFile_examples:
  "downloadFile example_digest (example_fetch (ok_response ([[1, 2], [3]], Done)))
       opened example_options Map.empty
     = (Inr \<lparr>path = ''/cache/db.tar.gz'', size_bytes = 3,
             checksum = ''sha256:'' @ digest_a\<rparr>,
        [''/cache/db.tar.gz'' \<mapsto> [1, 2, 3]])"
  "downloadFile example_digest (example_fetch (ok_response ([[1, 2]], Done)))
       opened example_options Map.empty
     = (Inl (ChecksumMismatch ''https://example.org/db.tar.gz'' digest_a digest_b),
        Map.empty)"
  "downloadFile example_digest
       (example_fetch (ok_response ([[1, 2]], Failed ''ECONNRESET'')))
       True example_options Map.empty
     = (Inl (TransportError ''ECONNRESET''), Map.empty)"
proof -
  show "downloadFile example_digest (example_fetch (ok_response ([[1, 2], [3]], Done)))
       opened example_options Map.empty
     = (Inr \<lparr>path = ''/cache/db.tar.gz'', size_bytes = 3,
             checksum = ''sha256:'' @ digest_a\<rparr>,
        [''/cache/db.tar.gz'' \<mapsto> [1, 2, 3]])"
    using downloadFile_outcomes [where fetch = "example_fetch (ok_response ([[1, 2], [3]], Done))"
        and options = example_options and response = "ok_response ([[1, 2], [3]], Done)"
        and chunks = "[[1, 2], [3]]" and ending = Done and algorithm = Sha256
        and hex_digest = example_digest and fs = Map.empty and opened = opened]
    by (simp add: example_response example_options_fields example_expected_digest
        example_expected_given example_digest_def)
  show "downloadFile example_digest (example_fetch (ok_response ([[1, 2]], Done)))
       opened example_options Map.empty
     = (Inl (ChecksumMismatch ''https://example.org/db.tar.gz'' digest_a digest_b),
        Map.empty)"
    using downloadFile_outcomes [where fetch = "example_fetch (ok_response ([[1, 2]], Done))"
        and options = example_options and response = "ok_response ([[1, 2]], Done)"
        and chunks = "[[1, 2]]" and ending = Done and algorithm = Sha256
        and hex_digest = example_digest and fs = Map.empty and opened = opened]
    by (simp add: example_response example_options_fields example_expected_digest
        example_expected_given example_digest_def digests_differ)
  show "downloadFile example_digest
       (example_fetch (ok_response ([[1, 2]], Failed ''ECONNRESET'')))
       True example_options Map.empty
     = (Inl (TransportError ''ECONNRESET''), Map.empty)"
    using downloadFile_outcomes [where fetch = "example_fetch (ok_response ([[1, 2]], Failed ''ECONNRESET''))"
        and options = example_options
        and response = "ok_response ([[1, 2]], Failed ''ECONNRESET'')"
        and chunks = "[[1, 2]]" and ending = "Failed ''ECONNRESET''" and algorithm = Sha256
        and hex_digest = example_digest and fs = Map.empty and opened = True]
    by (simp add: example_response example_options_fields)
qed

text \<open>
  C2. The claim: when a transport error occurs mid-stream the partial file is deleted and
  the error is passed on, and no partial or corrupt file is left at the destination. The
  code attempts it (\<^verbatim>\<open>fileStream.destroy()\<close>, then \<^verbatim>\<open>unlink\<close>) and misses one order of
  events. Below, the response is ok, its stream rejects with \<open>ECONNRESET\<close> at the first
  read, before the open of the write stream has completed, and nothing is at the
  destination beforehand: \<^verbatim>\<open>unlink\<close> finds no file, its error is swallowed, the pending
  open creates the file, and the call ends with the error passed on and an empty file at
  the destination. The other outcomes are as the claim has them, see
  \<open>downloadFile_outcomes\<close>: a failure after the open removes the file, a differing digest
  removes the file and fails with both digests, an equal digest leaves the transferred
  data.
\<close>

theorem downloadFile_failure_before_open_leaves_file:
  "downloadFile example_digest
       (example_fetch (ok_response ([], Failed ''ECONNRESET'')))
       False example_options Map.empty
     = (Inl (TransportError ''ECONNRESET''), [''/cache/db.tar.gz'' \<mapsto> []])
   \<and> existsSync
       (snd (downloadFile example_digest
               (example_fetch (ok_response ([], Failed ''ECONNRESET'')))
               False example_options Map.empty))
       ''/cache/db.tar.gz''"
proof -
  have 1: "downloadFile example_digest
       (example_fetch (ok_response ([], Failed ''ECONNRESET'')))
       False example_options Map.empty
     = (Inl (TransportError ''ECONNRESET''), [''/cache/db.tar.gz'' \<mapsto> []])"
    using downloadFile_streamed [where fetch = "example_fetch (ok_response ([], Failed ''ECONNRESET''))"
        and options = example_options
        and response = "ok_response ([], Failed ''ECONNRESET'')"
        and chunks = "[]" and ending = "Failed ''ECONNRESET''"
        and hex_digest = example_digest and fs = Map.empty and opened = False]
    by (simp add: example_response example_options_fields)
  show ?thesis
    unfolding 1 by (simp add: existsSync_def)
qed
lemma digest_no_colon: "CHR '':'' \<notin> set digest_a" "CHR '':'' \<notin> set digest_c"
  by (simp_all add: digest_a_def digest_c_def)

lemma sha512_options_fields:
  "url (sha512_options h) = ''https://example.org/db.tar.gz''"
  "destination (sha512_options h) = ''/cache/db.tar.gz''"
  "expectedChecksum (sha512_options h) = Some (''sha512'' @ '':'' @ h)"
  "checksumAlgorithm (sha512_options h) = None"
  by (simp_all add: sha512_options_def)

text \<open>
  C10: in a call whose transfer completes, with an expected checksum of the form
  \<open>algorithm:hex\<close> (no colon in either part), the expected digest is \<open>hex\<close> and the outcome
  is decided by comparing \<open>hex\<close> with the digest computed under the \<open>checksumAlgorithm\<close>
  option, SHA-256 when the option is absent: the call succeeds when they are equal and fails
  with the mismatch of \<open>hex\<close> and that digest otherwise. The algorithm named before the
  colon occurs nowhere in the outcome.
\<close>

theorem downloadFile_algorithm_prefix_discarded:
  assumes "fetch (url options) = Inr response"
    and "ok response"
    and "body response = Some (chunks, Done)"
    and "expectedChecksum options = Some (named @ '':'' @ hex)"
    and "CHR '':'' \<notin> set named"
    and "CHR '':'' \<notin> set hex"
    and "algorithm = (case checksumAlgorithm options of None \<Rightarrow> Sha256 | Some a \<Rightarrow> a)"
  shows "expected_digest (named @ '':'' @ hex) = hex
       \<and> downloadFile hex_digest fetch opened options fs
           = (if hex_digest algorithm (concat chunks) = hex
              then (Inr \<lparr>path = destination options,
                         size_bytes = length (concat chunks),
                         checksum = algorithm_name algorithm @ '':''
                                      @ hex_digest algorithm (concat chunks)\<rparr>,
                    fs(destination options \<mapsto> concat chunks))
              else (Inl (ChecksumMismatch (url options) hex
                           (hex_digest algorithm (concat chunks))),
                    fs(destination options := None)))"
proof -
  have e: "expected_digest (named @ '':'' @ hex) = hex"
    using assms(5,6) by (rule expected_digest_prefixed)
  have n: "named @ '':'' @ hex \<noteq> []" by simp
  show ?thesis
    using assms(1-4,7) e n
      downloadFile_streamed [where fetch = fetch and options = options
        and response = response and chunks = chunks and ending = Done
        and hex_digest = hex_digest and fs = fs and opened = opened]
    by (simp add: Let_def)
qed

theorem downloadFile_algorithm_prefix_discarded_witness:
  "example_digest Sha512 [1, 2, 3] = digest_c
   \<and> example_digest Sha256 [1, 2, 3] = digest_a
   \<and> downloadFile example_digest (example_fetch (ok_response ([[1, 2], [3]], Done)))
       True (sha512_options digest_a) Map.empty
     = (Inr \<lparr>path = ''/cache/db.tar.gz'', size_bytes = 3,
             checksum = ''sha256:'' @ digest_a\<rparr>,
        [''/cache/db.tar.gz'' \<mapsto> [1, 2, 3]])
   \<and> downloadFile example_digest (example_fetch (ok_response ([[1, 2], [3]], Done)))
       True (sha512_options digest_c) Map.empty
     = (Inl (ChecksumMismatch ''https://example.org/db.tar.gz'' digest_c digest_a),
        Map.empty(''/cache/db.tar.gz'' := None))"
proof -
  have c: "CHR '':'' \<notin> set ''sha512''" by simp
  have al: "Sha256 = (case checksumAlgorithm (sha512_options h) of None \<Rightarrow> Sha256 | Some a \<Rightarrow> a)"
    for h by (simp add: sha512_options_fields)
  have 1: "downloadFile example_digest (example_fetch (ok_response ([[1, 2], [3]], Done)))
       True (sha512_options digest_a) Map.empty
     = (Inr \<lparr>path = ''/cache/db.tar.gz'', size_bytes = 3,
             checksum = ''sha256:'' @ digest_a\<rparr>,
        [''/cache/db.tar.gz'' \<mapsto> [1, 2, 3]])"
    using conjunct2 [OF downloadFile_algorithm_prefix_discarded
        [where fetch = "example_fetch (ok_response ([[1, 2], [3]], Done))"
          and options = "sha512_options digest_a"
          and response = "ok_response ([[1, 2], [3]], Done)"
          and chunks = "[[1, 2], [3]]" and named = "''sha512''" and hex = digest_a
          and algorithm = Sha256 and hex_digest = example_digest and fs = Map.empty
          and opened = True,
         OF example_response(1) example_response(2) example_response(3)
            sha512_options_fields(3) c digest_no_colon(1) al]]
    by (simp add: sha512_options_fields example_digest_def)
  have 2: "downloadFile example_digest (example_fetch (ok_response ([[1, 2], [3]], Done)))
       True (sha512_options digest_c) Map.empty
     = (Inl (ChecksumMismatch ''https://example.org/db.tar.gz'' digest_c digest_a),
        Map.empty(''/cache/db.tar.gz'' := None))"
    using conjunct2 [OF downloadFile_algorithm_prefix_discarded
        [where fetch = "example_fetch (ok_response ([[1, 2], [3]], Done))"
          and options = "sha512_options digest_c"
          and response = "ok_response ([[1, 2], [3]], Done)"
          and chunks = "[[1, 2], [3]]" and named = "''sha512''" and hex = digest_c
          and algorithm = Sha256 and hex_digest = example_digest and fs = Map.empty
          and opened = True,
         OF example_response(1) example_response(2) example_response(3)
            sha512_options_fields(3) c digest_no_colon(2) al]]
    by (simp add: sha512_options_fields example_digest_def digests_differ)
  have 3: "example_digest Sha512 [1, 2, 3] = digest_c" "example_digest Sha256 [1, 2, 3] = digest_a"
    by (simp_all add: example_digest_def)
  show ?thesis by (intro conjI 1 2 3)
qed

subsection \<open>Checksum repair\<close>

lemma parse_step_distinct:
  "distinct (map fst acc) \<Longrightarrow>
   distinct (map fst (fold (\<lambda>line checksums.
             case match_checksum_line line of
               Some (hash, filename) \<Rightarrow> AList.update filename hash checksums
             | None \<Rightarrow> checksums) ls acc))"
  by (induction ls arbitrary: acc) (auto simp: distinct_update split: option.split)

lemma parse_manifest_distinct: "distinct (map fst (parse_manifest content))"
  unfolding parse_manifest_def by (rule parse_step_distinct) simp

lemma fetchChecksums_distinct:
  "fetchChecksums fetch_text tag = Inr existing \<Longrightarrow> distinct (map fst existing)"
  by (auto simp: fetchChecksums_def parse_manifest_distinct split: sum.splits if_splits)

lemma hash_chunks_eq:
  "hash_chunks chunks (h, n) = (h @ concat chunks, n + length (concat chunks))"
  by (induction chunks arbitrary: h n) simp_all

lemma updated_keeps_other:
  "\<forall>a \<in> set ms. name a \<noteq> f \<Longrightarrow>
   map_of (updatedChecksums H fetch acc ms) f = map_of acc f"
  unfolding updatedChecksums_def
  by (induction ms arbitrary: acc) (auto simp: update_conv' split: sum.split)

lemma updated_keys:
  "fst ` set (updatedChecksums H fetch acc ms)
     = fst ` set acc
       \<union> {name a |a. a \<in> set ms \<and> (\<exists>d. computeRemoteSha256 H fetch (browser_download_url a) = Inr d)}"
  unfolding updatedChecksums_def
proof (induction ms arbitrary: acc)
  case Nil
  then show ?case by simp
next
  case (Cons m ms)
  show ?case
  proof (cases "computeRemoteSha256 H fetch (browser_download_url m)")
    case (Inl e)
    then show ?thesis using Cons.IH [of acc] by auto
  next
    case (Inr d)
    then show ?thesis
      using Cons.IH [of "AList.update (name m) d acc"] by (auto simp: dom_update)
  qed
qed

lemma updated_snoc:
  "updatedChecksums H fetch acc (ms @ [m])
     = (case computeRemoteSha256 H fetch (browser_download_url m) of
          Inr digest \<Rightarrow> AList.update (name m) digest (updatedChecksums H fetch acc ms)
        | Inl e \<Rightarrow> updatedChecksums H fetch acc ms)"
  unfolding updatedChecksums_def by simp

lemma updated_new_entry:
  "f \<notin> fst ` set acc \<Longrightarrow> map_of (updatedChecksums H fetch acc ms) f = Some d \<Longrightarrow>
   \<exists>a \<in> set ms. name a = f \<and> computeRemoteSha256 H fetch (browser_download_url a) = Inr d"
proof (induction ms arbitrary: d rule: rev_induct)
  case Nil
  from Nil(2) have "map_of acc f = Some d" by (simp add: updatedChecksums_def)
  then have "(f, d) \<in> set acc" by (rule map_of_SomeD)
  then have "f \<in> fst ` set acc" by (rule image_eqI [rotated]) simp
  with Nil(1) show ?case by contradiction
next
  case (snoc m ms)
  show ?case
  proof (cases "computeRemoteSha256 H fetch (browser_download_url m)")
    case (Inl e)
    with snoc.prems(2) have "map_of (updatedChecksums H fetch acc ms) f = Some d"
      by (simp add: updated_snoc)
    from snoc.IH [OF snoc.prems(1) this] show ?thesis by auto
  next
    case (Inr d')
    with snoc.prems(2)
    have u: "((map_of (updatedChecksums H fetch acc ms))(name m \<mapsto> d')) f = Some d"
      by (simp add: updated_snoc update_conv')
    show ?thesis
    proof (cases "name m = f")
      case True
      with u have "d' = d" by simp
      with Inr True show ?thesis by auto
    next
      case False
      with u have "map_of (updatedChecksums H fetch acc ms) f = Some d" by simp
      from snoc.IH [OF snoc.prems(1) this] show ?thesis by auto
    qed
  qed
qed

lemma updated_distinct:
  "distinct (map fst acc) \<Longrightarrow> distinct (map fst (updatedChecksums H fetch acc ms))"
  unfolding updatedChecksums_def
  by (induction ms arbitrary: acc) (auto simp: distinct_update split: sum.split)

lemma checksum_lines_member:
  assumes "distinct (map fst m)" and "map_of m f = Some d"
  shows "d @ ''  '' @ f \<in> set (checksum_lines m)"
proof -
  from assms(2) have "(f, d) \<in> set m" by (rule map_of_SomeD)
  then have mem: "(f, d) \<in> set (sort_key fst m)" by (simp only: set_sort)
  have "d @ ''  '' @ f = (case (f, d) of (f, d) \<Rightarrow> d @ ''  '' @ f)"
    by (simp only: prod.case)
  with mem have "d @ ''  '' @ f \<in> (\<lambda>(f, d). d @ ''  '' @ f) ` set (sort_key fst m)"
    by (rule image_eqI [rotated])
  then show ?thesis
    by (simp only: checksum_lines_entries [OF assms(1)] set_map)
qed

lemma extract_linux: "extractPlatform ''server-linux-x64.tar.gz'' = Some ''linux-x64''"
  by (simp add: extractPlatform_def PLATFORMS_def str_includes_def sublist_code)

lemma extract_win32: "extractPlatform ''server-win32-x64.zip'' = Some ''win32-x64''"
  by (simp add: extractPlatform_def PLATFORMS_def str_includes_def sublist_code)

lemma scenarioC_binaryAssets:
  "map name (binaryAssets scenarioC_release)
     = [''server-linux-x64.tar.gz'', ''server-win32-x64.zip'']"
  by (simp add: binaryAssets_def scenarioC_release_def extract_linux extract_win32)

lemma scenarioC_parse:
  "parse_manifest scenarioC_manifest = [(''server-linux-x64.tar.gz'', digest_a)]"
  by code_simp

lemma missing_not_existing:
  "a \<in> set (missingAssets existing release) \<Longrightarrow> name a \<notin> fst ` set existing"
  by (simp add: missingAssets_def)

lemma repair_release_published:
  assumes fc: "fetchChecksums fetch_text (tag_name release) = Inr existing"
    and ba: "binaryAssets release \<noteq> []"
    and up: "updated = updatedChecksums hex_digest fetch existing (missingAssets existing release)"
  shows "(missingAssets existing release = [] \<longrightarrow>
            repair_release hex_digest fetch fetch_text dryRun release = Inr AllChecksumsPresent)"
    and "(missingAssets existing release \<noteq> [] \<longrightarrow>
            repair_release hex_digest fetch fetch_text False release
              = Inr (Uploaded (manifest_content updated)))"
    and "\<forall>(f, d) \<in> set existing.
            map_of updated f = Some d \<and> d @ ''  '' @ f \<in> set (checksum_lines updated)"
    and "fst ` set updated - fst ` set existing
           = {name a |a. a \<in> set (missingAssets existing release)
                \<and> (\<exists>d. computeRemoteSha256 hex_digest fetch (browser_download_url a) = Inr d)}"
    and "\<forall>f d. f \<notin> fst ` set existing \<and> map_of updated f = Some d \<longrightarrow>
            (\<exists>a \<in> set (missingAssets existing release). name a = f
               \<and> computeRemoteSha256 hex_digest fetch (browser_download_url a) = Inr d)"
proof -
  show "missingAssets existing release = [] \<longrightarrow>
            repair_release hex_digest fetch fetch_text dryRun release = Inr AllChecksumsPresent"
    using fc ba by (simp add: repair_release_def)
  show "missingAssets existing release \<noteq> [] \<longrightarrow>
            repair_release hex_digest fetch fetch_text False release
              = Inr (Uploaded (manifest_content updated))"
    using fc ba up by (simp add: repair_release_def)
  have de: "distinct (map fst existing)"
    using fc by (rule fetchChecksums_distinct)
  have du: "distinct (map fst updated)"
    unfolding up using de by (rule updated_distinct)
  show "\<forall>(f, d) \<in> set existing.
            map_of updated f = Some d \<and> d @ ''  '' @ f \<in> set (checksum_lines updated)"
  proof (intro ballI, clarify)
    fix f d
    assume fd: "(f, d) \<in> set existing"
    then have "f \<in> fst ` set existing" by (rule image_eqI [rotated]) simp
    then have "\<forall>a \<in> set (missingAssets existing release). name a \<noteq> f"
      using missing_not_existing by blast
    then have "map_of updated f = map_of existing f"
      unfolding up by (rule updated_keeps_other)
    also have "map_of existing f = Some d"
      using de fd by simp
    finally have m: "map_of updated f = Some d" .
    with du have "d @ ''  '' @ f \<in> set (checksum_lines updated)"
      by (rule checksum_lines_member)
    with m show "map_of updated f = Some d \<and> d @ ''  '' @ f \<in> set (checksum_lines updated)"
      by simp
  qed
  show "fst ` set updated - fst ` set existing
           = {name a |a. a \<in> set (missingAssets existing release)
                \<and> (\<exists>d. computeRemoteSha256 hex_digest fetch (browser_download_url a) = Inr d)}"
  proof -
    have "{name a |a. a \<in> set (missingAssets existing release)
                \<and> (\<exists>d. computeRemoteSha256 hex_digest fetch (browser_download_url a) = Inr d)}
            \<inter> fst ` set existing = {}"
      using missing_not_existing [of _ existing release] by force
    then show ?thesis
      unfolding up updated_keys by (simp add: Un_Diff Diff_triv)
  qed
  show "\<forall>f d. f \<notin> fst ` set existing \<and> map_of updated f = Some d \<longrightarrow>
            (\<exists>a \<in> set (missingAssets existing release). name a = f
               \<and> computeRemoteSha256 hex_digest fetch (browser_download_url a) = Inr d)"
    unfolding up using updated_new_entry by blast
qed

lemma scenarioC_existing:
  "fetchChecksums (example_fetch (ok_response scenarioC_manifest)) (tag_name scenarioC_release)
     = Inr [(''server-linux-x64.tar.gz'', digest_a)]"
  by (simp add: fetchChecksums_def example_response scenarioC_parse)

lemma scenarioC_binaries: "binaryAssets scenarioC_release \<noteq> []"
  using scenarioC_binaryAssets by auto

lemma scenarioC_missing:
  "missingAssets [(''server-linux-x64.tar.gz'', digest_a)] scenarioC_release
     = [\<lparr>name = ''server-win32-x64.zip'',
          browser_download_url = ''https://example.org/server-win32-x64.zip'',
          asset_size = 2\<rparr>]"
  by (simp add: missingAssets_def binaryAssets_def scenarioC_release_def extract_linux
      extract_win32)

lemma scenarioC_digest:
  "computeRemoteSha256 example_digest (example_fetch (ok_response ([[1, 2]], Done))) u
     = Inr digest_b"
  by (simp add: computeRemoteSha256_def example_response hash_chunks_eq example_digest_def)

lemma scenarioC_updated:
  "updatedChecksums example_digest (example_fetch (ok_response ([[1, 2]], Done)))
     [(''server-linux-x64.tar.gz'', digest_a)]
     (missingAssets [(''server-linux-x64.tar.gz'', digest_a)] scenarioC_release)
   = [(''server-linux-x64.tar.gz'', digest_a), (''server-win32-x64.zip'', digest_b)]"
  by (simp add: scenarioC_missing updatedChecksums_def scenarioC_digest)

lemma scenarioC_content:
  "manifest_content
     [(''server-linux-x64.tar.gz'', digest_a), (''server-win32-x64.zip'', digest_b)]
   = complete_manifest"
  by (simp add: manifest_content_def checksum_lines_def complete_manifest_def)

lemma scenarioC_repair:
  "repair_release example_digest (example_fetch (ok_response ([[1, 2]], Done)))
     (example_fetch (ok_response scenarioC_manifest)) False scenarioC_release
   = Inr (Uploaded complete_manifest)"
  using scenarioC_binaries
  by (simp add: repair_release_def scenarioC_existing scenarioC_missing [simplified]
      scenarioC_updated [simplified scenarioC_missing] scenarioC_content)

lemma single_release_binaries:
  "binaryAssets single_release
     = [\<lparr>name = ''server-linux-x64.tar.gz'',
          browser_download_url = ''https://example.org/server-linux-x64.tar.gz'',
          asset_size = 3\<rparr>]"
  by (simp add: binaryAssets_def single_release_def extract_linux)

lemma single_release_existing:
  "fetchChecksums (example_fetch not_found) (tag_name single_release) = Inr []"
  by (simp add: fetchChecksums_def example_fetch_def not_found_def)

lemma single_release_missing_assets:
  "missingAssets [] single_release
     = [\<lparr>name = ''server-linux-x64.tar.gz'',
          browser_download_url = ''https://example.org/server-linux-x64.tar.gz'',
          asset_size = 3\<rparr>]"
  by (simp add: missingAssets_def single_release_binaries)

lemma single_release_missing:
  "map name (missingAssets [] single_release) = [''server-linux-x64.tar.gz'']"
  by (simp add: single_release_missing_assets)

lemma single_release_failed:
  "updatedChecksums example_digest failing_fetch [] (missingAssets [] single_release) = []"
  by (simp add: single_release_missing_assets updatedChecksums_def
      computeRemoteSha256_def failing_fetch_def)

lemma single_release_repair:
  "repair_release example_digest failing_fetch (example_fetch not_found) False single_release
     = Inr (Uploaded [CHR 0x0A])"
proof -
  have "manifest_content [] = [CHR 0x0A]"
    by (simp add: manifest_content_def checksum_lines_def)
  moreover have "missingAssets [] single_release \<noteq> []"
    by (simp add: single_release_missing_assets)
  moreover have "binaryAssets single_release \<noteq> []"
    by (simp add: single_release_binaries)
  ultimately show ?thesis
    by (simp add: repair_release_def single_release_existing single_release_failed)
qed

lemma empty_manifest_parse: "parse_manifest [CHR 0x0A] = []"
  by (simp add: parse_manifest_def match_checksum_line_def)

lemma complete_parse:
  "parse_manifest complete_manifest
     = [(''server-linux-x64.tar.gz'', digest_a), (''server-win32-x64.zip'', digest_b)]"
  by code_simp

lemma complete_existing:
  "fetchChecksums (example_fetch (ok_response complete_manifest)) (tag_name scenarioC_release)
     = Inr [(''server-linux-x64.tar.gz'', digest_a), (''server-win32-x64.zip'', digest_b)]"
  by (simp add: fetchChecksums_def example_response complete_parse)

lemma complete_missing:
  "missingAssets [(''server-linux-x64.tar.gz'', digest_a), (''server-win32-x64.zip'', digest_b)]
     scenarioC_release = []"
  by (simp add: missingAssets_def binaryAssets_def scenarioC_release_def extract_linux
      extract_win32)

text \<open>
  C3, as stated: the newly added entries are exactly the binary assets that were missing
  from the existing manifest. They are not when a digest cannot be computed: for a release
  with one binary asset, no manifest, and a network on which the download of the asset
  fails, the repair uploads a manifest with no entry at all, although the asset was
  missing.
\<close>

theorem repair_release_failed_download_not_added:
  "map name (missingAssets [] single_release) = [''server-linux-x64.tar.gz'']
   \<and> repair_release example_digest failing_fetch (example_fetch not_found) False
         single_release
       = Inr (Uploaded [CHR 0x0A])
   \<and> parse_manifest [CHR 0x0A] = []
   \<and> updatedChecksums example_digest failing_fetch [] (missingAssets [] single_release) = []"
  by (intro conjI single_release_missing single_release_repair empty_manifest_parse
      single_release_failed)

text \<open>
  C3, amended: checksum repair of a release is strictly additive and idempotent. Every
  (filename, digest) entry of the existing manifest is an entry of the published mapping
  with the same digest, and its line is a line of the published manifest. The newly added
  filenames are exactly those of the missing binary assets whose digest could be computed
  (an asset whose download fails is skipped), each with a digest computed for an asset of
  that name. When no binary asset is missing the repair publishes nothing, so repairing a
  complete release twice publishes nothing both times. On the inputs of Scenario C the
  published manifest has both binary entries, the linux-x64 digest as it was.
\<close>

theorem repair_release_additive:
  assumes "fetchChecksums fetch_text (tag_name release) = Inr existing"
    and "binaryAssets release \<noteq> []"
    and "updated = updatedChecksums hex_digest fetch existing (missingAssets existing release)"
  shows "(missingAssets existing release = [] \<longrightarrow>
            repair_release hex_digest fetch fetch_text dryRun release = Inr AllChecksumsPresent)
       \<and> (missingAssets existing release \<noteq> [] \<longrightarrow>
            repair_release hex_digest fetch fetch_text False release
              = Inr (Uploaded (manifest_content updated)))
       \<and> (\<forall>(f, d) \<in> set existing.
            map_of updated f = Some d \<and> d @ ''  '' @ f \<in> set (checksum_lines updated))
       \<and> fst ` set updated - fst ` set existing
           = {name a |a. a \<in> set (missingAssets existing release)
                \<and> (\<exists>d. computeRemoteSha256 hex_digest fetch (browser_download_url a) = Inr d)}
       \<and> (\<forall>f d. f \<notin> fst ` set existing \<and> map_of updated f = Some d \<longrightarrow>
            (\<exists>a \<in> set (missingAssets existing release). name a = f
               \<and> computeRemoteSha256 hex_digest fetch (browser_download_url a) = Inr d))
       \<and> repair_release example_digest (example_fetch (ok_response ([[1, 2]], Done)))
            (example_fetch (ok_response scenarioC_manifest)) False scenarioC_release
           = Inr (Uploaded (digest_a @ ''  server-linux-x64.tar.gz'' @ [CHR 0x0A]
                            @ digest_b @ ''  server-win32-x64.zip'' @ [CHR 0x0A]))
       \<and> scenarioC_manifest = digest_a @ ''  server-linux-x64.tar.gz'' @ [CHR 0x0A]"
  by (intro conjI repair_release_published [OF assms]
      scenarioC_repair [unfolded complete_manifest_def] scenarioC_manifest_def)


theorem repair_release_additive_witness:
  "repair_release example_digest (example_fetch (ok_response ([[1, 2]], Done)))
       (example_fetch (ok_response scenarioC_manifest)) False scenarioC_release
     = Inr (Uploaded (manifest_content
         [(''server-linux-x64.tar.gz'', digest_a), (''server-win32-x64.zip'', digest_b)]))
   \<and> map_of [(''server-linux-x64.tar.gz'', digest_a), (''server-win32-x64.zip'', digest_b)]
         ''server-linux-x64.tar.gz'' = Some digest_a
   \<and> repair_release example_digest (example_fetch (ok_response ([[1, 2]], Done)))
       (example_fetch (ok_response complete_manifest)) False scenarioC_release
     = Inr AllChecksumsPresent"
proof -
  let ?one = "[(''server-linux-x64.tar.gz'', digest_a)]"
  let ?two = "[(''server-linux-x64.tar.gz'', digest_a), (''server-win32-x64.zip'', digest_b)]"
  let ?net = "example_fetch (ok_response ([[1, 2]], Done)) :: string \<Rightarrow> error + stream Response"
  have m: "missingAssets ?one scenarioC_release \<noteq> []"
    by (simp add: scenarioC_missing)
  note T = repair_release_additive [where fetch_text = "example_fetch (ok_response scenarioC_manifest)"
      and release = scenarioC_release and existing = ?one and updated = ?two
      and hex_digest = example_digest and fetch = ?net and dryRun = False,
      OF scenarioC_existing scenarioC_binaries scenarioC_updated [symmetric]]
  from conjunct1 [OF conjunct2 [OF T]] m
  have 1: "repair_release example_digest ?net
       (example_fetch (ok_response scenarioC_manifest)) False scenarioC_release
     = Inr (Uploaded (manifest_content ?two))"
    by (rule mp)
  have 2: "map_of ?two ''server-linux-x64.tar.gz'' = Some digest_a" by simp
  note U = repair_release_additive [where fetch_text = "example_fetch (ok_response complete_manifest)"
      and release = scenarioC_release and existing = ?two
      and updated = "updatedChecksums example_digest ?net ?two (missingAssets ?two scenarioC_release)"
      and hex_digest = example_digest and fetch = ?net and dryRun = False,
      OF complete_existing scenarioC_binaries refl]
  from conjunct1 [OF U] complete_missing
  have 3: "repair_release example_digest ?net
       (example_fetch (ok_response complete_manifest)) False scenarioC_release
     = Inr AllChecksumsPresent"
    by (rule mp)
  show ?thesis by (intro conjI 1 2 3)
qed

subsection \<open>Paths\<close>

lemma split_on_append_tail:
  "c \<notin> set e \<Longrightarrow>
   split_on c (s @ e) = butlast (split_on c s) @ [last (split_on c s) @ e]"
proof (induction s)
  case Nil
  then show ?case by (simp add: split_on_no_sep)
next
  case (Cons x s)
  then show ?case
    using split_on_not_Nil [of c s]
    by (cases "split_on c s") (auto split: list.split)
qed

lemma join_with_snoc:
  "join_with sep (xs @ [y]) = (if xs = [] then y else join_with sep xs @ sep @ y)"
  by (induction sep xs rule: join_with.induct) auto

lemma push_segment_proper:
  "3 \<le> length seg \<Longrightarrow> push_segment b res seg = res @ [seg]"
  by (auto simp: push_segment_def)

lemma normalize_extension:
  assumes len: "3 \<le> length e" and sep: "CHR ''/'' \<notin> set e" and dot: "hd e = CHR ''.''"
  shows "normalize (s @ e) = path_stem s @ e"
proof -
  let ?abs = "s \<noteq> [] \<and> hd s = CHR ''/''"
  let ?segs = "split_on (CHR ''/'') s"
  let ?kept = "foldl (push_segment (\<not> ?abs)) [] (butlast ?segs)"
  from len have ne: "e \<noteq> []" by auto
  then have p: "(s @ e = []) = False" by simp
  have hd: "(hd (s @ e) = CHR ''/'') = ?abs"
    using dot ne by (cases s) auto
  have "last (s @ e) \<in> set e"
    using ne by simp
  with sep have last: "(last (s @ e) = CHR ''/'') = False"
    by auto
  have seg: "3 \<le> length (last ?segs @ e)" using len by simp
  have fold: "foldl (push_segment (\<not> ?abs)) [] (split_on (CHR ''/'') (s @ e))
                = ?kept @ [last ?segs @ e]"
    by (simp only: split_on_append_tail [OF sep] foldl_append foldl.simps
        push_segment_proper [OF seg])
  have joined: "join_with ''/'' (?kept @ [last ?segs @ e])
                  = (if ?kept = [] then [] else join_with ''/'' ?kept @ ''/'') @ last ?segs @ e"
    by (simp add: join_with_snoc)
  have nonempty: "(join_with ''/'' (?kept @ [last ?segs @ e]) = []) = False"
    unfolding joined using ne by simp
  have "normalize (s @ e)
          = (if ?abs then ''/'' else []) @ join_with ''/'' (?kept @ [last ?segs @ e]) @ []"
    by (simp only: normalize_def p Let_def hd last fold nonempty if_False)
  also have "\<dots> = path_stem s @ e"
    unfolding joined by (simp add: path_stem_def Let_def)
  finally show ?thesis .
qed

lemma join_extension:
  assumes "3 \<le> length e" and "CHR ''/'' \<notin> set e" and "hd e = CHR ''.''"
  shows "join (args @ [p @ e]) = join_stem args p @ e"
proof -
  let ?ys = "filter (\<lambda>arg. arg \<noteq> []) args"
  let ?s = "if ?ys = [] then p else join_with ''/'' ?ys @ ''/'' @ p"
  from assms(1) have ne: "p @ e \<noteq> []" by auto
  have j: "join_with ''/'' (filter (\<lambda>arg. arg \<noteq> []) (args @ [p @ e])) = ?s @ e"
    using ne by (simp add: join_with_snoc)
  from assms(1) have "e \<noteq> []" by auto
  then have "(?s @ e = []) = False" by simp
  then have "join (args @ [p @ e]) = normalize (?s @ e)"
    unfolding join_def Let_def j by (simp only: if_False)
  also have "\<dots> = path_stem ?s @ e"
    using assms by (rule normalize_extension)
  finally show ?thesis by (simp add: join_stem_def)
qed

lemma tar_gz_ends: "endsWith (stem @ ''.tar.gz'') ''.tar.gz''"
  unfolding endsWith_def by (rule suffixI) (rule refl)

lemma zip_ends: "endsWith (stem @ ''.zip'') ''.zip''"
  unfolding endsWith_def by (rule suffixI) (rule refl)

lemma tar_gz_not_zip: "\<not> endsWith (stem @ ''.tar.gz'') ''.zip''"
proof
  assume "endsWith (stem @ ''.tar.gz'') ''.zip''"
  then obtain zs where "stem @ ''.tar.gz'' = zs @ ''.zip''"
    by (auto simp: endsWith_def suffix_def)
  then have "last (stem @ ''.tar.gz'') = last (zs @ ''.zip'')" by (rule arg_cong)
  then show False by simp
qed

lemma replace_tar_gz: "replace_archive_suffix (stem @ ''.tar.gz'') ext = stem @ ext"
proof -
  have "take (length (stem @ ''.tar.gz'') - 7) (stem @ ''.tar.gz'') = stem"
    by simp
  then show ?thesis
    by (simp only: replace_archive_suffix_def tar_gz_ends if_True)
qed

lemma archive_paths:
  "getArchiveCachePath process db ver plat cacheDir
     = join_stem [getCacheDir process cacheDir, db, ver] plat @ ''.tar.gz''"
  "join [c, db, ver, plat @ ''.tar.gz''] = join_stem [c, db, ver] plat @ ''.tar.gz''"
  "join [c, db, ver, plat @ ''.zip''] = join_stem [c, db, ver] plat @ ''.zip''"
  "canonical_path c db ver plat ''tar.gz'' = join_stem [c, db, ver] plat @ ''.tar.gz''"
  "canonical_path c db ver plat ''zip'' = join_stem [c, db, ver] plat @ ''.zip''"
proof -
  show tar: "join [c, db, ver, plat @ ''.tar.gz''] = join_stem [c, db, ver] plat @ ''.tar.gz''"
    for c
    using join_extension [of "''.tar.gz''" "[c, db, ver]" plat] by simp
  show zip: "join [c, db, ver, plat @ ''.zip''] = join_stem [c, db, ver] plat @ ''.zip''"
    using join_extension [of "''.zip''" "[c, db, ver]" plat] by simp
  show "getArchiveCachePath process db ver plat cacheDir
     = join_stem [getCacheDir process cacheDir, db, ver] plat @ ''.tar.gz''"
    by (simp only: getArchiveCachePath_def tar)
  show "canonical_path c db ver plat ''tar.gz'' = join_stem [c, db, ver] plat @ ''.tar.gz''"
    using tar [of c] by (simp add: canonical_path_def)
  show "canonical_path c db ver plat ''zip'' = join_stem [c, db, ver] plat @ ''.zip''"
    using zip by (simp add: canonical_path_def)
qed

lemma install_archive_cases:
  "install_archive hex_digest fetch opened process CONFIG fs =
     (let canonical = canonical_path (getCacheDir process None) (cfg_database CONFIG)
                        (cfg_version CONFIG) (cfg_platform CONFIG)
                        (archive_extension (cfg_downloadUrl CONFIG))
      in if existsSync fs (getArchiveCachePath process (cfg_database CONFIG)
                             (cfg_version CONFIG) (cfg_platform CONFIG) None)
            \<and> existsSync fs canonical
         then (Inr (Cached, canonical), fs)
         else (case downloadFile hex_digest fetch opened
                      \<lparr>url = cfg_downloadUrl CONFIG, destination = canonical,
                       expectedChecksum =
                         (if cfg_checksum CONFIG \<noteq> ''sha256:PLACEHOLDER''
                          then Some (cfg_checksum CONFIG) else None),
                       checksumAlgorithm = None\<rparr> fs of
                 (Inl e, fs') \<Rightarrow> (Inl e, fs')
               | (Inr result, fs') \<Rightarrow> (Inr (Downloaded, canonical), fs')))"
proof (cases "endsWith (cfg_downloadUrl CONFIG) ''.zip''")
  case True
  then show ?thesis
    by (simp add: install_archive_def Let_def getCachedArchive_def truthy_def
        archive_extension_def archive_paths replace_tar_gz tar_gz_not_zip)
next
  case False
  then show ?thesis
    by (simp add: install_archive_def Let_def getCachedArchive_def truthy_def
        archive_extension_def archive_paths tar_gz_ends)
qed

lemma example_cache_dir: "getCacheDir example_process None = ''/home/u/.cache/host-db''"
  by (simp add: getCacheDir_def example_process_def truthy_def join_def normalize_def
      push_segment_def)

lemma example_tar_path:
  "getArchiveCachePath example_process ''mariadb'' ''11.4.5'' ''linux-arm64'' None
     = ''/home/u/.cache/host-db/mariadb/11.4.5/linux-arm64.tar.gz''"
  by (simp add: getArchiveCachePath_def example_cache_dir join_def normalize_def
      push_segment_def)

lemma example_normalize_zip:
  "normalize ''/home/u/.cache/host-db/mariadb/11.4.5/linux-arm64.zip''
     = ''/home/u/.cache/host-db/mariadb/11.4.5/linux-arm64.zip''"
  by (simp add: normalize_def push_segment_def)

lemma canonical_path_template:
  assumes "cacheRoot \<noteq> []" "db \<noteq> []" "ver \<noteq> []"
  shows "canonical_path cacheRoot db ver plat ext
           = normalize (cacheRoot @ ''/'' @ db @ ''/'' @ ver @ ''/'' @ plat @ ''.'' @ ext)"
  using assms by (simp add: canonical_path_def join_def)

lemma example_config_fields:
  "cfg_database (example_config u) = ''mariadb''"
  "cfg_version (example_config u) = ''11.4.5''"
  "cfg_platform (example_config u) = ''linux-arm64''"
  "cfg_downloadUrl (example_config u) = u"
  "cfg_checksum (example_config u) = ''sha256:'' @ digest_a"
  by (simp_all add: example_config_def)

lemma example_extensions:
  "archive_extension ''https://example.org/mariadb-11.4.5-winx64.zip'' = ''zip''"
  "archive_extension ''https://example.org/mariadb-11.4.5-linux.tar.gz'' = ''tar.gz''"
  by (simp_all add: archive_extension_def endsWith_def suffix_to_prefix)

lemma example_canonical:
  "canonical_path ''/home/u/.cache/host-db'' ''mariadb'' ''11.4.5'' ''linux-arm64'' ''zip''
     = ''/home/u/.cache/host-db/mariadb/11.4.5/linux-arm64.zip''"
  "canonical_path ''/home/u/.cache/host-db'' ''mariadb'' ''11.4.5'' ''linux-arm64'' ''tar.gz''
     = ''/home/u/.cache/host-db/mariadb/11.4.5/linux-arm64.tar.gz''"
  by (simp_all add: canonical_path_def join_def normalize_def push_segment_def)

text \<open>
  C8: for every cache key (database, version, platform) and source URL, the installer works
  on one path, the canonical path: the join of the cache root, the database, the version and
  \<open>platform.ext\<close>, where \<open>ext\<close> is \<open>zip\<close> when the source URL ends in \<open>.zip\<close> and \<open>tar.gz\<close>
  otherwise. It is the path of the cached archive that is reused, and otherwise the
  destination of the download and the path of the downloaded archive. For a non-empty root,
  database and version the canonical path is the normal form of
  \<open>cacheRoot/database/version/platform.ext\<close>.
\<close>

theorem install_archive_canonical_path:
  "install_archive hex_digest fetch opened process CONFIG fs =
     (let canonical = canonical_path (getCacheDir process None) (cfg_database CONFIG)
                        (cfg_version CONFIG) (cfg_platform CONFIG)
                        (archive_extension (cfg_downloadUrl CONFIG))
      in if existsSync fs (getArchiveCachePath process (cfg_database CONFIG)
                             (cfg_version CONFIG) (cfg_platform CONFIG) None)
            \<and> existsSync fs canonical
         then (Inr (Cached, canonical), fs)
         else (case downloadFile hex_digest fetch opened
                      \<lparr>url = cfg_downloadUrl CONFIG, destination = canonical,
                       expectedChecksum =
                         (if cfg_checksum CONFIG \<noteq> ''sha256:PLACEHOLDER''
                          then Some (cfg_checksum CONFIG) else None),
                       checksumAlgorithm = None\<rparr> fs of
                 (Inl e, fs') \<Rightarrow> (Inl e, fs')
               | (Inr result, fs') \<Rightarrow> (Inr (Downloaded, canonical), fs')))
   \<and> archive_extension sourceUrl = (if endsWith sourceUrl ''.zip'' then ''zip'' else ''tar.gz'')
   \<and> canonical_path cacheRoot db ver plat ext = join [cacheRoot, db, ver, plat @ ''.'' @ ext]
   \<and> (cacheRoot \<noteq> [] \<and> db \<noteq> [] \<and> ver \<noteq> [] \<longrightarrow>
        canonical_path cacheRoot db ver plat ext
          = normalize (cacheRoot @ ''/'' @ db @ ''/'' @ ver @ ''/'' @ plat @ ''.'' @ ext))"
  using canonical_path_template [of cacheRoot db ver plat ext]
  by (intro conjI install_archive_cases archive_extension_def canonical_path_def) simp

theorem install_archive_canonical_path_witness:
  "canonical_path ''/home/u/.cache/host-db'' ''mariadb'' ''11.4.5'' ''linux-arm64''
       (archive_extension ''https://example.org/mariadb-11.4.5-winx64.zip'')
     = ''/home/u/.cache/host-db/mariadb/11.4.5/linux-arm64.zip''
   \<and> install_archive example_digest failing_fetch True example_process
       (example_config ''https://example.org/mariadb-11.4.5-winx64.zip'')
       [''/home/u/.cache/host-db/mariadb/11.4.5/linux-arm64.tar.gz'' \<mapsto> [1],
        ''/home/u/.cache/host-db/mariadb/11.4.5/linux-arm64.zip'' \<mapsto> [2]]
     = (Inr (Cached, ''/home/u/.cache/host-db/mariadb/11.4.5/linux-arm64.zip''),
        [''/home/u/.cache/host-db/mariadb/11.4.5/linux-arm64.tar.gz'' \<mapsto> [1],
         ''/home/u/.cache/host-db/mariadb/11.4.5/linux-arm64.zip'' \<mapsto> [2]])"
proof -
  let ?fs = "[''/home/u/.cache/host-db/mariadb/11.4.5/linux-arm64.tar.gz'' \<mapsto> [1],
        ''/home/u/.cache/host-db/mariadb/11.4.5/linux-arm64.zip'' \<mapsto> [2]] :: files"
  note T = install_archive_canonical_path
          [where cacheRoot = "''/home/u/.cache/host-db''" and db = "''mariadb''"
             and ver = "''11.4.5''" and plat = "''linux-arm64''" and ext = "''zip''"
             and hex_digest = example_digest and fetch = failing_fetch
             and process = example_process
             and CONFIG = "example_config ''https://example.org/mariadb-11.4.5-winx64.zip''"
             and fs = ?fs and opened = True]
  have ne: "''/home/u/.cache/host-db'' \<noteq> [] \<and> ''mariadb'' \<noteq> [] \<and> ''11.4.5'' \<noteq> []"
    by simp
  from conjunct2 [OF conjunct2 [OF conjunct2 [OF T]]] ne
  have "canonical_path ''/home/u/.cache/host-db'' ''mariadb'' ''11.4.5''
                  ''linux-arm64'' ''zip''
          = normalize (''/home/u/.cache/host-db'' @ ''/'' @ ''mariadb'' @ ''/'' @ ''11.4.5''
                       @ ''/'' @ ''linux-arm64'' @ ''.'' @ ''zip'')"
    by (rule mp)
  then have 1: "canonical_path ''/home/u/.cache/host-db'' ''mariadb'' ''11.4.5'' ''linux-arm64''
       (archive_extension ''https://example.org/mariadb-11.4.5-winx64.zip'')
     = ''/home/u/.cache/host-db/mariadb/11.4.5/linux-arm64.zip''"
    by (simp add: example_extensions example_normalize_zip)
  have 2: "install_archive example_digest failing_fetch True example_process
       (example_config ''https://example.org/mariadb-11.4.5-winx64.zip'') ?fs
     = (Inr (Cached, ''/home/u/.cache/host-db/mariadb/11.4.5/linux-arm64.zip''), ?fs)"
    unfolding conjunct1 [OF T]
    by (simp add: example_config_fields example_cache_dir example_tar_path
        example_extensions example_canonical existsSync_def Let_def)
  show ?thesis by (intro conjI 1 2)
qed

lemma install_archive_reuse:
  assumes c: "canonical = canonical_path (getCacheDir process None) (cfg_database CONFIG)
                 (cfg_version CONFIG) (cfg_platform CONFIG)
                 (archive_extension (cfg_downloadUrl CONFIG))"
  shows "\<forall>p fs'. install_archive hex_digest fetch opened process CONFIG fs = (Inr (Cached, p), fs')
            \<longrightarrow> p = canonical \<and> existsSync fs canonical \<and> fs' = fs"
    and "\<not> endsWith (cfg_downloadUrl CONFIG) ''.zip'' \<and> existsSync fs canonical \<longrightarrow>
          install_archive hex_digest fetch opened process CONFIG fs = (Inr (Cached, canonical), fs)"
    and "\<not> existsSync fs canonical \<longrightarrow>
          install_archive hex_digest fetch opened process CONFIG fs
            = (case downloadFile hex_digest fetch opened
                      \<lparr>url = cfg_downloadUrl CONFIG, destination = canonical,
                       expectedChecksum =
                         (if cfg_checksum CONFIG \<noteq> ''sha256:PLACEHOLDER''
                          then Some (cfg_checksum CONFIG) else None),
                       checksumAlgorithm = None\<rparr> fs of
                 (Inl e, fs') \<Rightarrow> (Inl e, fs')
               | (Inr result, fs') \<Rightarrow> (Inr (Downloaded, canonical), fs'))"
proof -
  note cases = install_archive_cases [of hex_digest fetch opened process CONFIG fs, folded c]
  show "\<forall>p fs'. install_archive hex_digest fetch opened process CONFIG fs = (Inr (Cached, p), fs')
            \<longrightarrow> p = canonical \<and> existsSync fs canonical \<and> fs' = fs"
    unfolding cases
    by (auto simp: Let_def split: if_splits prod.splits sum.splits)
  show "\<not> endsWith (cfg_downloadUrl CONFIG) ''.zip'' \<and> existsSync fs canonical \<longrightarrow>
          install_archive hex_digest fetch opened process CONFIG fs = (Inr (Cached, canonical), fs)"
    unfolding cases
    by (simp add: Let_def c archive_extension_def archive_paths)
  show "\<not> existsSync fs canonical \<longrightarrow>
          install_archive hex_digest fetch opened process CONFIG fs
            = (case downloadFile hex_digest fetch opened
                      \<lparr>url = cfg_downloadUrl CONFIG, destination = canonical,
                       expectedChecksum =
                         (if cfg_checksum CONFIG \<noteq> ''sha256:PLACEHOLDER''
                          then Some (cfg_checksum CONFIG) else None),
                       checksumAlgorithm = None\<rparr> fs of
                 (Inl e, fs') \<Rightarrow> (Inl e, fs')
               | (Inr result, fs') \<Rightarrow> (Inr (Downloaded, canonical), fs'))"
    unfolding cases by (simp add: Let_def)
qed


lemma example_cached_reuse:
  "install_archive example_digest failing_fetch True example_process
       (example_config ''https://example.org/mariadb-11.4.5-linux.tar.gz'')
       [''/home/u/.cache/host-db/mariadb/11.4.5/linux-arm64.tar.gz'' \<mapsto> [9]]
     = (Inr (Cached, ''/home/u/.cache/host-db/mariadb/11.4.5/linux-arm64.tar.gz''),
        [''/home/u/.cache/host-db/mariadb/11.4.5/linux-arm64.tar.gz'' \<mapsto> [9]])"
  unfolding install_archive_cases
  by (simp add: example_config_fields example_cache_dir example_tar_path
      example_extensions example_canonical existsSync_def Let_def)

lemma example_known_checksum:
  "cfg_checksum (example_config u) \<noteq> ''sha256:PLACEHOLDER''"
  "expected_digest (cfg_checksum (example_config u)) = digest_a"
proof -
  have "length (''sha256:'' @ digest_a) \<noteq> length ''sha256:PLACEHOLDER''"
    by (simp add: digest_a_def)
  then have "''sha256:'' @ digest_a \<noteq> ''sha256:PLACEHOLDER''"
    by (metis (no_types))
  then show "cfg_checksum (example_config u) \<noteq> ''sha256:PLACEHOLDER''"
    by (simp only: example_config_fields simp_thms)
  show "expected_digest (cfg_checksum (example_config u)) = digest_a"
    using example_expected_digest
    by (simp only: example_config_fields example_expected_def)
qed

lemma example_cached_digest: "example_digest Sha256 [9] = digest_b"
  by (simp add: example_digest_def)

lemma example_tar_url: "\<not> endsWith ''https://example.org/mariadb-11.4.5-linux.tar.gz'' ''.zip''"
  by (simp add: endsWith_def suffix_to_prefix)

lemma example_canonical_tar:
  "''/home/u/.cache/host-db/mariadb/11.4.5/linux-arm64.tar.gz''
     = canonical_path (getCacheDir example_process None)
         (cfg_database (example_config ''https://example.org/mariadb-11.4.5-linux.tar.gz''))
         (cfg_version (example_config ''https://example.org/mariadb-11.4.5-linux.tar.gz''))
         (cfg_platform (example_config ''https://example.org/mariadb-11.4.5-linux.tar.gz''))
         (archive_extension
            (cfg_downloadUrl (example_config ''https://example.org/mariadb-11.4.5-linux.tar.gz'')))"
  by (simp only: example_config_fields example_cache_dir example_extensions example_canonical)

lemma example_download:
  "downloadFile example_digest (example_fetch (ok_response ([[1, 2], [3]], Done))) True
     \<lparr>url = u, destination = d,
      expectedChecksum =
        (if cfg_checksum (example_config u) \<noteq> ''sha256:PLACEHOLDER''
         then Some (cfg_checksum (example_config u)) else None),
      checksumAlgorithm = None\<rparr> Map.empty
   = (Inr \<lparr>path = d, size_bytes = 3, checksum = ''sha256:'' @ digest_a\<rparr>, [d \<mapsto> [1, 2, 3]])"
proof -
  let ?o = "\<lparr>url = u, destination = d,
      expectedChecksum =
        (if cfg_checksum (example_config u) \<noteq> ''sha256:PLACEHOLDER''
         then Some (cfg_checksum (example_config u)) else None),
      checksumAlgorithm = None\<rparr>"
  have e: "expectedChecksum ?o = Some (cfg_checksum (example_config u))"
    by (simp add: example_known_checksum)
  show ?thesis
    using downloadFile_streamed [where fetch = "example_fetch (ok_response ([[1, 2], [3]], Done))"
        and options = ?o and response = "ok_response ([[1, 2], [3]], Done)"
        and chunks = "[[1, 2], [3]]" and ending = Done and hex_digest = example_digest
        and fs = Map.empty and opened = True]
    by (simp add: example_response e example_known_checksum example_digest_def Let_def)
qed

text \<open>
  C5, as stated: a cached file whose known digest does not match is never reused. It is:
  with the known checksum \<open>sha256:aa\<dots>a\<close> and, at the canonical path, a file whose SHA-256
  digest is \<open>bb\<dots>b\<close>, the installer uses the cached file and fetches nothing (here every
  fetch would fail).
\<close>

theorem install_archive_reuses_unverified_file:
  "install_archive example_digest failing_fetch True example_process
       (example_config ''https://example.org/mariadb-11.4.5-linux.tar.gz'')
       [''/home/u/.cache/host-db/mariadb/11.4.5/linux-arm64.tar.gz'' \<mapsto> [9]]
     = (Inr (Cached, ''/home/u/.cache/host-db/mariadb/11.4.5/linux-arm64.tar.gz''),
        [''/home/u/.cache/host-db/mariadb/11.4.5/linux-arm64.tar.gz'' \<mapsto> [9]])
   \<and> cfg_checksum (example_config ''https://example.org/mariadb-11.4.5-linux.tar.gz'')
       \<noteq> ''sha256:PLACEHOLDER''
   \<and> expected_digest
         (cfg_checksum (example_config ''https://example.org/mariadb-11.4.5-linux.tar.gz''))
       = digest_a
   \<and> example_digest Sha256 [9] = digest_b
   \<and> digest_b \<noteq> digest_a"
  by (intro conjI example_cached_reuse example_known_checksum example_cached_digest
      digests_differ)

text \<open>
  C5, amended: a cache entry is treated as present only if a file exists at the canonical
  path, and the lookup checks no digest: for a source URL that does not end in \<open>.zip\<close>, a
  file that exists at the canonical path is reused as it is, whatever its content and
  whatever digest is known. When no file exists at the canonical path the entry is treated
  as absent and the artifact is fetched to the canonical path, the download being given the
  known checksum, if there is one, to verify.
\<close>

theorem install_archive_cache_lookup:
  assumes "canonical = canonical_path (getCacheDir process None) (cfg_database CONFIG)
                 (cfg_version CONFIG) (cfg_platform CONFIG)
                 (archive_extension (cfg_downloadUrl CONFIG))"
  shows "(\<forall>p fs'. install_archive hex_digest fetch opened process CONFIG fs = (Inr (Cached, p), fs')
            \<longrightarrow> p = canonical \<and> existsSync fs canonical \<and> fs' = fs)
       \<and> (\<not> endsWith (cfg_downloadUrl CONFIG) ''.zip'' \<and> existsSync fs canonical \<longrightarrow>
            install_archive hex_digest fetch opened process CONFIG fs
              = (Inr (Cached, canonical), fs))
       \<and> (\<not> existsSync fs canonical \<longrightarrow>
            install_archive hex_digest fetch opened process CONFIG fs
              = (case downloadFile hex_digest fetch opened
                        \<lparr>url = cfg_downloadUrl CONFIG, destination = canonical,
                         expectedChecksum =
                           (if cfg_checksum CONFIG \<noteq> ''sha256:PLACEHOLDER''
                            then Some (cfg_checksum CONFIG) else None),
                         checksumAlgorithm = None\<rparr> fs of
                   (Inl e, fs') \<Rightarrow> (Inl e, fs')
                 | (Inr result, fs') \<Rightarrow> (Inr (Downloaded, canonical), fs')))"
  by (intro conjI install_archive_reuse [OF assms])


theorem install_archive_cache_lookup_witness:
  "install_archive example_digest failing_fetch True example_process
       (example_config ''https://example.org/mariadb-11.4.5-linux.tar.gz'')
       [''/home/u/.cache/host-db/mariadb/11.4.5/linux-arm64.tar.gz'' \<mapsto> [9]]
     = (Inr (Cached, ''/home/u/.cache/host-db/mariadb/11.4.5/linux-arm64.tar.gz''),
        [''/home/u/.cache/host-db/mariadb/11.4.5/linux-arm64.tar.gz'' \<mapsto> [9]])
   \<and> existsSync [''/home/u/.cache/host-db/mariadb/11.4.5/linux-arm64.tar.gz'' \<mapsto> [9]]
         ''/home/u/.cache/host-db/mariadb/11.4.5/linux-arm64.tar.gz''
   \<and> install_archive example_digest (example_fetch (ok_response ([[1, 2], [3]], Done))) True
       example_process (example_config ''https://example.org/mariadb-11.4.5-linux.tar.gz'')
       Map.empty
     = (Inr (Downloaded, ''/home/u/.cache/host-db/mariadb/11.4.5/linux-arm64.tar.gz''),
        [''/home/u/.cache/host-db/mariadb/11.4.5/linux-arm64.tar.gz'' \<mapsto> [1, 2, 3]])"
proof -
  let ?p = "''/home/u/.cache/host-db/mariadb/11.4.5/linux-arm64.tar.gz''"
  let ?cfg = "example_config ''https://example.org/mariadb-11.4.5-linux.tar.gz''"
  let ?fs = "[?p \<mapsto> [9]] :: files"
  note A = install_archive_cache_lookup [where canonical = ?p and process = example_process
      and CONFIG = ?cfg and hex_digest = example_digest and fetch = failing_fetch
      and fs = ?fs and opened = True, OF example_canonical_tar]
  have h2: "\<not> endsWith (cfg_downloadUrl ?cfg) ''.zip'' \<and> existsSync ?fs ?p"
    by (simp add: example_config_fields example_tar_url existsSync_def)
  from conjunct1 [OF conjunct2 [OF A]] h2
  have 1: "install_archive example_digest failing_fetch True example_process ?cfg ?fs
             = (Inr (Cached, ?p), ?fs)"
    by (rule mp)
  from conjunct1 [OF A] 1 have 2: "existsSync ?fs ?p"
    by blast
  note B = install_archive_cache_lookup [where canonical = ?p and process = example_process
      and CONFIG = ?cfg and hex_digest = example_digest
      and fetch = "example_fetch (ok_response ([[1, 2], [3]], Done))"
      and fs = Map.empty and opened = True, OF example_canonical_tar]
  have h3: "\<not> existsSync Map.empty ?p"
    by (simp add: existsSync_def)
  from conjunct2 [OF conjunct2 [OF B]] h3
  have "install_archive example_digest (example_fetch (ok_response ([[1, 2], [3]], Done))) True
          example_process ?cfg Map.empty
        = (case downloadFile example_digest (example_fetch (ok_response ([[1, 2], [3]], Done))) True
                  \<lparr>url = cfg_downloadUrl ?cfg, destination = ?p,
                   expectedChecksum =
                     (if cfg_checksum ?cfg \<noteq> ''sha256:PLACEHOLDER''
                      then Some (cfg_checksum ?cfg) else None),
                   checksumAlgorithm = None\<rparr> Map.empty of
             (Inl e, fs') \<Rightarrow> (Inl e, fs')
           | (Inr result, fs') \<Rightarrow> (Inr (Downloaded, ?p), fs'))"
    by (rule mp)
  then have 3: "install_archive example_digest
          (example_fetch (ok_response ([[1, 2], [3]], Done))) True example_process ?cfg Map.empty
        = (Inr (Downloaded, ?p), [?p \<mapsto> [1, 2, 3]])"
    by (simp only: example_config_fields(4) example_download prod.case sum.case)
  show ?thesis by (intro conjI 1 2 3)
qed

end
